theory Spec2Isabelle
  imports Main
begin

section \<open>The parsed statement handed to the compiler\<close>

text \<open>
  \<^verbatim>\<open>compile.go\<close> consumes the AST of package \<^verbatim>\<open>influxql\<close>, which is declared
  outside this file. The expression kinds below are the ones the compiler tells apart
  by type switch or type assertion, together with the remaining literal kinds. A
  \<^verbatim>\<open>time.Duration\<close> is a count of nanoseconds (an \<^verbatim>\<open>int64\<close>); a \<^verbatim>\<open>time.Time\<close> is
  taken as the instant it denotes, in nanoseconds since the zero time (January 1 of
  year 1, UTC). The only arithmetic the compiler performs on either is a remainder
  and a difference of a value and its own truncation, neither of which can leave
  the 64-bit range, so both are plain integers.
\<close>

type_synonym Duration = int
type_synonym Time = int

datatype Token = ADD | SUB | MUL | DIV

datatype Expr =
    VarRef string
  | Call string "Expr list"
  | Distinct string
  | BinaryExpr Token Expr Expr
  | ParenExpr Expr
  | Wildcard
  | RegexLiteral string
  | DurationLiteral Duration
  | TimeLiteral Time
  | IntegerLiteral int
  | StringLiteral string
  | BooleanLiteral bool

datatype Source = Measurement string | SubQuery string

datatype Field = Field (fieldExpr: Expr)

datatype Dimension = Dimension (dimensionExpr: Expr)

record SelectStatement =
  stmtFields :: "Field list"
  stmtDimensions :: "Dimension list"
  stmtSources :: "Source list"

text \<open>
  \<^verbatim>\<open>influxql.Literal\<close> is the interface of the literal expression kinds; the test
  \<^verbatim>\<open>expr.(influxql.Literal)\<close> succeeds exactly on them.
\<close>

fun isLiteral :: "Expr \<Rightarrow> bool" where
  "isLiteral (RegexLiteral _) = True"
| "isLiteral (DurationLiteral _) = True"
| "isLiteral (TimeLiteral _) = True"
| "isLiteral (IntegerLiteral _) = True"
| "isLiteral (StringLiteral _) = True"
| "isLiteral (BooleanLiteral _) = True"
| "isLiteral _ = False"

text \<open>Type assertions \<^verbatim>\<open>v, ok := e.(*influxql.T)\<close>: \<open>None\<close> is \<^verbatim>\<open>ok == false\<close>.\<close>

fun asVarRef :: "Expr \<Rightarrow> string option" where
  "asVarRef (VarRef v) = Some v"
| "asVarRef _ = None"

fun asDurationLiteral :: "Expr \<Rightarrow> Duration option" where
  "asDurationLiteral (DurationLiteral d) = Some d"
| "asDurationLiteral _ = None"

fun asIntegerLiteral :: "Expr \<Rightarrow> int option" where
  "asIntegerLiteral (IntegerLiteral n) = Some n"
| "asIntegerLiteral _ = None"

text \<open>\<^verbatim>\<open>(*influxql.Distinct).NewCall\<close>: the call \<^verbatim>\<open>distinct(val)\<close>, as name and arguments.\<close>

definition NewCall :: "string \<Rightarrow> string \<times> Expr list" where
  "NewCall val = (''distinct'', [VarRef val])"

subsection \<open>Library operations the compiler relies on\<close>

text \<open>
  Go's \<^verbatim>\<open>%\<close> truncates towards zero: the remainder has the sign of the dividend. With a
  zero divisor it panics; the caller below writes that branch out.
\<close>

definition go_rem :: "int \<Rightarrow> int \<Rightarrow> int" where
  "go_rem x y = sgn x * (\<bar>x\<bar> mod \<bar>y\<bar>)"

definition minDuration :: Duration where
  "minDuration = - (2 ^ 63)"

definition maxDuration :: Duration where
  "maxDuration = 2 ^ 63 - 1"

definition IsZero :: "Time \<Rightarrow> bool" where
  "IsZero t = (t = 0)"

text \<open>
  \<^verbatim>\<open>Time.Truncate(d)\<close> rounds down to a multiple of \<open>d\<close> since the zero time and
  returns the time unchanged when \<open>d \<le> 0\<close>; \<^verbatim>\<open>Time.Sub\<close> is the difference, saturated
  to the range of a \<^verbatim>\<open>Duration\<close>.
\<close>

definition Truncate :: "Time \<Rightarrow> Duration \<Rightarrow> Time" where
  "Truncate t d = (if d \<le> 0 then t else t - t mod d)"

definition Sub :: "Time \<Rightarrow> Time \<Rightarrow> Duration" where
  "Sub t u = (if t - u < minDuration then minDuration
              else if maxDuration < t - u then maxDuration else t - u)"

text \<open>\<^verbatim>\<open>strings.ToLower\<close>, on the ASCII letters.\<close>

definition toLowerChar :: "char \<Rightarrow> char" where
  "toLowerChar ch = (if 65 \<le> (of_char ch :: nat) \<and> (of_char ch :: nat) \<le> 90
                     then char_of ((of_char ch :: nat) + 32) else ch)"

definition ToLower :: "string \<Rightarrow> string" where
  "ToLower s = map toLowerChar s"

section \<open>Failures\<close>

text \<open>
  A compile call ends in one of three ways besides success: an error value built by
  \<^verbatim>\<open>errors.New\<close>, an error value built by \<^verbatim>\<open>fmt.Errorf\<close> (kept as the format string with
  its operands), or a panic that unwinds out of \<^verbatim>\<open>Compile\<close>.
\<close>

datatype operand = S string | D int | V Expr

datatype failure =
    Error string
  | Errorf string "operand list"
  | Panic string

section \<open>The operator graph\<close>

text \<open>
  Modelled from the spec: the edge and node primitives (\<^verbatim>\<open>NewEdge\<close>, \<^verbatim>\<open>AddEdge\<close>,
  \<^verbatim>\<open>ReadEdge.Insert\<close>, \<^verbatim>\<open>Merge.AddInput\<close>, \<^verbatim>\<open>AuxiliaryFields.Iterator\<close>) and the node
  structs live in other files of package \<^verbatim>\<open>query\<close>. Following sections 3 and 4.1 of
  the specification, an edge is a directed wire with a producer end (the write edge)
  and a consumer end (the read edge), either of which may be unbound; nodes and edge
  ends are heap objects addressed here by their index in an arena, so that pointer
  identity and later mutation of an object are explicit.
\<close>

datatype NodeKind =
    MergeNode
  | IteratorCreatorNode "string option" Source
  | FunctionCallNode string
  | DistinctNode
  | TopBottomSelectorNode "string list"
  | BinaryExprNode Token
  | AuxiliaryFieldsNode "string list"

record Node =
  kind :: NodeKind
  nodeInputs :: "nat list"
  nodeOutput :: "nat option"

record WriteEdge =
  wNode :: "nat option"
  wOutput :: nat

record ReadEdge =
  rNode :: "nat option"
  rInput :: nat

record Graph =
  nodes :: "Node list"
  writeEdges :: "WriteEdge list"
  readEdges :: "ReadEdge list"

definition emptyGraph :: Graph where
  "emptyGraph = \<lparr>nodes = [], writeEdges = [], readEdges = []\<rparr>"

definition newNode :: "Graph \<Rightarrow> NodeKind \<Rightarrow> nat \<times> Graph" where
  "newNode g k =
     (length (nodes g), g\<lparr>nodes := nodes g @ [\<lparr>kind = k, nodeInputs = [], nodeOutput = None\<rparr>]\<rparr>)"

definition AddEdge :: "Graph \<Rightarrow> nat option \<Rightarrow> nat option \<Rightarrow> (nat \<times> nat) \<times> Graph" where
  "AddEdge g inp out =
     ((length (writeEdges g), length (readEdges g)),
      g\<lparr>writeEdges := writeEdges g @ [\<lparr>wNode = inp, wOutput = length (readEdges g)\<rparr>],
        readEdges := readEdges g @ [\<lparr>rNode = out, rInput = length (writeEdges g)\<rparr>]\<rparr>)"

definition NewEdge :: "Graph \<Rightarrow> nat option \<Rightarrow> (nat \<times> nat) \<times> Graph" where
  "NewEdge g inp = AddEdge g inp None"

definition addInput :: "Graph \<Rightarrow> nat \<Rightarrow> nat \<Rightarrow> Graph" where
  "addInput g n r = g\<lparr>nodes := (nodes g)[n := (nodes g ! n)\<lparr>nodeInputs := nodeInputs (nodes g ! n) @ [r]\<rparr>]\<rparr>"

definition setOutput :: "Graph \<Rightarrow> nat \<Rightarrow> nat \<Rightarrow> Graph" where
  "setOutput g n w = g\<lparr>nodes := (nodes g)[n := (nodes g ! n)\<lparr>nodeOutput := Some w\<rparr>]\<rparr>"

definition setReadNode :: "Graph \<Rightarrow> nat \<Rightarrow> nat \<Rightarrow> Graph" where
  "setReadNode g r n = g\<lparr>readEdges := (readEdges g)[r := (readEdges g ! r)\<lparr>rNode := Some n\<rparr>]\<rparr>"

definition setWriteNode :: "Graph \<Rightarrow> nat \<Rightarrow> nat \<Rightarrow> Graph" where
  "setWriteNode g w n = g\<lparr>writeEdges := (writeEdges g)[w := (writeEdges g ! w)\<lparr>wNode := Some n\<rparr>]\<rparr>"

definition Merge_AddInput :: "Graph \<Rightarrow> nat \<Rightarrow> nat \<Rightarrow> nat \<times> Graph" where
  "Merge_AddInput g m n =
     (case AddEdge g (Some n) (Some m) of ((w, r), g') \<Rightarrow> (w, addInput g' m r))"

text \<open>
  \<^verbatim>\<open>e.Insert(n)\<close> splits the edge ending in read edge \<open>e\<close>: the old write end now
  feeds a new read edge consumed by \<open>n\<close>, and \<open>e\<close> is fed by a new write edge
  produced by \<open>n\<close>. It returns the new read edge and the new write edge.
\<close>

definition Insert :: "Graph \<Rightarrow> nat \<Rightarrow> nat \<Rightarrow> (nat \<times> nat) \<times> Graph" where
  "Insert g e n =
     (let w = rInput (readEdges g ! e);
          out = length (readEdges g);
          win = length (writeEdges g)
      in ((out, win),
          g\<lparr>writeEdges := (writeEdges g)[w := (writeEdges g ! w)\<lparr>wOutput := out\<rparr>]
                            @ [\<lparr>wNode = Some n, wOutput = e\<rparr>],
            readEdges := (readEdges g)[e := (readEdges g ! e)\<lparr>rInput := win\<rparr>]
                            @ [\<lparr>rNode = Some n, rInput = w\<rparr>]\<rparr>))"

fun addAuxRef :: "string \<Rightarrow> Node \<Rightarrow> Node" where
  "addAuxRef ref n =
     (case kind n of
        AuxiliaryFieldsNode refs \<Rightarrow> n\<lparr>kind := AuxiliaryFieldsNode (refs @ [ref])\<rparr>
      | _ \<Rightarrow> n)"

text \<open>
  \<^verbatim>\<open>aux.Iterator(ref)\<close>: the shared auxiliary-fields node records the requested
  reference and hands out a fresh edge that it produces.
\<close>

definition AuxiliaryFields_Iterator :: "Graph \<Rightarrow> nat \<Rightarrow> string \<Rightarrow> nat \<times> Graph" where
  "AuxiliaryFields_Iterator g aux ref =
     (case AddEdge g (Some aux) None of
        ((w, r), g') \<Rightarrow> (r, g'\<lparr>nodes := (nodes g')[aux := addAuxRef ref (nodes g' ! aux)]\<rparr>))"

section \<open>The statement compiler (first draft, lines 1 to 363)\<close>

record Interval =
  Duration :: Duration
  Offset :: Duration

record CompileOptions =
  Now :: Time

text \<open>
  The compile state. \<open>FunctionCalls\<close> and \<open>OutputEdges\<close> hold read edges,
  \<open>AuxiliaryFields\<close> is the pointer to the shared auxiliary-fields node (\<open>None\<close> is
  \<^verbatim>\<open>nil\<close>), and \<open>graph\<close> is the heap of nodes and edges built so far.
\<close>

record compiledStatement =
  Sources :: "Source list"
  Dimensions :: "string list"
  Interval :: Interval
  FunctionCalls :: "nat list"
  OnlySelectors :: bool
  TopBottomFunction :: string
  AuxiliaryFields :: "nat option"
  OutputEdges :: "nat list"
  Options :: CompileOptions
  graph :: Graph

text \<open>
  \<^verbatim>\<open>newCompiler\<close> reads the wall clock (\<^verbatim>\<open>time.Now().UTC()\<close>) when the option is the
  zero time; the clock reading is the parameter \<open>wallclock\<close>.
\<close>

definition newCompiler :: "Time \<Rightarrow> SelectStatement \<Rightarrow> CompileOptions \<Rightarrow> compiledStatement" where
  "newCompiler wallclock stmt opt =
     \<lparr>Sources = [], Dimensions = [], Interval = \<lparr>Duration = 0, Offset = 0\<rparr>,
      FunctionCalls = [], OnlySelectors = True, TopBottomFunction = [],
      AuxiliaryFields = None, OutputEdges = [],
      Options = (if IsZero (Now opt) then opt\<lparr>Now := wallclock\<rparr> else opt),
      graph = emptyGraph\<rparr>"

text \<open>The loop of \<^verbatim>\<open>compileVarRef\<close> over the sources: a source of another kind panics.\<close>

fun compileVarRef_sources :: "string option \<Rightarrow> nat \<Rightarrow> Source list \<Rightarrow> Graph \<Rightarrow> failure + Graph" where
  "compileVarRef_sources ref merge [] g = Inr g"
| "compileVarRef_sources ref merge (Measurement m # rest) g =
     (case newNode g (IteratorCreatorNode ref (Measurement m)) of
        (ic, g1) \<Rightarrow>
          (case Merge_AddInput g1 merge ic of
             (w, g2) \<Rightarrow> compileVarRef_sources ref merge rest (setOutput g2 ic w)))"
| "compileVarRef_sources ref merge (SubQuery q # rest) g = Inl (Panic ''unimplemented'')"

definition compileVarRef ::
  "compiledStatement \<Rightarrow> string option \<Rightarrow> nat option \<Rightarrow> failure + (nat \<times> compiledStatement)" where
  "compileVarRef c ref node =
     (case newNode (graph c) MergeNode of
        (merge, g) \<Rightarrow>
          (case compileVarRef_sources ref merge (Sources c) g of
             Inl e \<Rightarrow> Inl e
           | Inr g1 \<Rightarrow>
               (case AddEdge g1 (Some merge) node of
                  ((w, out), g2) \<Rightarrow> Inr (out, c\<lparr>graph := setOutput g2 merge w\<rparr>))))"

definition compileDistinct ::
  "compiledStatement \<Rightarrow> Expr list \<Rightarrow> failure + (nat \<times> compiledStatement)" where
  "compileDistinct c args =
     (if length args = 0 then Inl (Error ''distinct function requires at least one argument'')
      else if length args \<noteq> 1 then Inl (Error ''distinct function can only have one argument'')
      else
        (case asVarRef (args ! 0) of
           None \<Rightarrow> Inl (Error ''expected field argument in distinct()'')
         | Some arg0 \<Rightarrow>
             (case newNode (graph c) DistinctNode of
                (d, g) \<Rightarrow>
                  (case compileVarRef (c\<lparr>graph := g\<rparr>) (Some arg0) (Some d) of
                     Inl e \<Rightarrow> Inl e
                   | Inr (inp, c1) \<Rightarrow>
                       (case NewEdge (addInput (graph c1) d inp) (Some d) of
                          ((w, out), g1) \<Rightarrow>
                            Inr (out, c1\<lparr>graph := setOutput g1 d w,
                                       FunctionCalls := FunctionCalls c1 @ [out]\<rparr>))))))"

text \<open>
  The first half of \<^verbatim>\<open>compileFunction\<close>: for \<^verbatim>\<open>count\<close>, an argument that is a call
  named \<^verbatim>\<open>distinct\<close> or a \<^verbatim>\<open>Distinct\<close> expression is compiled by \<^verbatim>\<open>compileDistinct\<close>
  and becomes the input; otherwise the input is still \<^verbatim>\<open>nil\<close>.
\<close>

fun compileFunction_distinct ::
  "compiledStatement \<Rightarrow> Expr \<Rightarrow> failure + (nat option \<times> compiledStatement)" where
  "compileFunction_distinct c (Call name args) =
     (if name = ''distinct'' then
        (case compileDistinct c args of
           Inl e \<Rightarrow> Inl e
         | Inr (d, c1) \<Rightarrow> Inr (Some d, c1))
      else Inr (None, c))"
| "compileFunction_distinct c (Distinct val) =
     (case compileDistinct c (snd (NewCall val)) of
        Inl e \<Rightarrow> Inl e
      | Inr (d, c1) \<Rightarrow> Inr (Some d, c1))"
| "compileFunction_distinct c _ = Inr (None, c)"

text \<open>The meta properties \<^verbatim>\<open>compileFunction\<close> marks down for a function name.\<close>

definition compileFunction_mark :: "string \<Rightarrow> compiledStatement \<Rightarrow> compiledStatement" where
  "compileFunction_mark name c =
     (if name \<in> set [''top'', ''bottom''] then
        (if TopBottomFunction c = [] then c\<lparr>TopBottomFunction := name\<rparr> else c)
      else if name \<in> set [''max'', ''min'', ''first'', ''last'', ''percentile'', ''sample''] then c
      else c\<lparr>OnlySelectors := False\<rparr>)"

definition compileFunction ::
  "compiledStatement \<Rightarrow> string \<Rightarrow> Expr list \<Rightarrow> failure + (nat \<times> compiledStatement)" where
  "compileFunction c name args =
     (if 1 \<noteq> length args then
        Inl (Errorf ''invalid number of arguments for %s, expected %d, got %d''
               [S name, D 1, D (int (length args))])
      else
        (case (if name = ''count'' then compileFunction_distinct c (args ! 0) else Inr (None, c)) of
           Inl e \<Rightarrow> Inl e
         | Inr (input0, c1) \<Rightarrow>
             (case (case input0 of
                      Some i \<Rightarrow> Inr (i, c1)
                    | None \<Rightarrow>
                        (case asVarRef (args ! 0) of
                           None \<Rightarrow> Inl (Errorf ''expected field argument in %s()'' [S name])
                         | Some arg0 \<Rightarrow> compileVarRef c1 (Some arg0) None)) of
                Inl e \<Rightarrow> Inl e
              | Inr (input, c2) \<Rightarrow>
                  (case newNode (graph c2) (FunctionCallNode name) of
                     (call, g) \<Rightarrow>
                       (case NewEdge (setReadNode (addInput g call input) input call) (Some call) of
                          ((w, out), g1) \<Rightarrow>
                            (let c3 = compileFunction_mark name c2
                             in Inr (out, c3\<lparr>graph := setOutput g1 call w,
                                           FunctionCalls := FunctionCalls c3 @ [out]\<rparr>)))))))"

text \<open>The interior arguments of \<^verbatim>\<open>top\<close> and \<^verbatim>\<open>bottom\<close> must be references.\<close>

fun compileTopBottom_dimensions :: "string \<Rightarrow> Expr list \<Rightarrow> failure + string list" where
  "compileTopBottom_dimensions name [] = Inr []"
| "compileTopBottom_dimensions name (v # vs) =
     (case asVarRef v of
        None \<Rightarrow> Inl (Errorf ''only fields or tags are allowed in %s(), found %s'' [S name, V v])
      | Some ref \<Rightarrow>
          (case compileTopBottom_dimensions name vs of
             Inl e \<Rightarrow> Inl e
           | Inr refs \<Rightarrow> Inr (ref # refs)))"

definition compileTopBottom ::
  "compiledStatement \<Rightarrow> string \<Rightarrow> Expr list \<Rightarrow> failure + (nat \<times> compiledStatement)" where
  "compileTopBottom c name args =
     (if TopBottomFunction c \<noteq> [] then
        Inl (Errorf ''selector function %s() cannot be combined with other functions''
               [S (TopBottomFunction c)])
      else if length args < 2 then
        Inl (Errorf ''invalid number of arguments for %s, expected at least %d, got %d''
               [S name, D 2, D (int (length args))])
      else
        (case asVarRef (args ! 0) of
           None \<Rightarrow> Inl (Errorf ''expected field argument in %s()'' [S name])
         | Some ref \<Rightarrow>
             (case (if length args > 2
                    then compileTopBottom_dimensions name (butlast (tl args)) else Inr []) of
                Inl e \<Rightarrow> Inl e
              | Inr dimensions \<Rightarrow>
                  (case asIntegerLiteral (last args) of
                     None \<Rightarrow>
                       Inl (Errorf ''expected integer as last argument in %s(), found %s''
                              [S name, V (last args)])
                   | Some limit \<Rightarrow>
                       if limit \<le> 0 then
                         Inl (Errorf ''limit (%d) in %s function must be at least 1''
                                [D limit, S name])
                       else
                         (case newNode (graph c) (TopBottomSelectorNode dimensions) of
                            (selector, g) \<Rightarrow>
                              (case compileVarRef (c\<lparr>TopBottomFunction := name, graph := g\<rparr>)
                                      (Some ref) (Some selector) of
                                 Inl e \<Rightarrow> Inl e
                               | Inr (inp, c1) \<Rightarrow>
                                   (case NewEdge (addInput (graph c1) selector inp)
                                           (Some selector) of
                                      ((w, out), g1) \<Rightarrow>
                                        Inr (out, c1\<lparr>graph := setOutput g1 selector w,
                                                   FunctionCalls := FunctionCalls c1 @ [out]\<rparr>))))))))"

text \<open>
  The auxiliary-fields node of the statement, instantiated now if there is none yet
  (the first two statements of the \<^verbatim>\<open>VarRef\<close> case of \<^verbatim>\<open>compileExpr\<close>).
\<close>

definition compileExpr_aux :: "compiledStatement \<Rightarrow> nat \<times> compiledStatement" where
  "compileExpr_aux c =
     (case AuxiliaryFields c of
        Some aux \<Rightarrow> (aux, c)
      | None \<Rightarrow>
          (case newNode (graph c) (AuxiliaryFieldsNode []) of
             (aux, g) \<Rightarrow> (aux, c\<lparr>AuxiliaryFields := Some aux, graph := g\<rparr>)))"

fun compileExpr :: "compiledStatement \<Rightarrow> Expr \<Rightarrow> failure + (nat \<times> compiledStatement)" where
  "compileExpr c (VarRef val) =
     (case compileExpr_aux c of
        (aux, c1) \<Rightarrow>
          (case AuxiliaryFields_Iterator (graph c1) aux val of
             (out, g) \<Rightarrow> Inr (out, c1\<lparr>graph := g\<rparr>)))"
| "compileExpr c (Call name args) =
     (if name \<in> set [''count'', ''min'', ''max'', ''sum'', ''first'', ''last'', ''mean'']
      then compileFunction c name args
      else if name = ''distinct'' then compileDistinct c args
      else if name \<in> set [''top'', ''bottom''] then compileTopBottom c name args
      else Inl (Error ''unimplemented''))"
| "compileExpr c (Distinct val) = compileDistinct c (snd (NewCall val))"
| "compileExpr c (BinaryExpr op lhs rhs) =
     (if isLiteral lhs then Inl (Error ''unimplemented'')
      else if isLiteral rhs then Inl (Error ''unimplemented'')
      else
        (case compileExpr c lhs of
           Inl e \<Rightarrow> Inl e
         | Inr (l, c1) \<Rightarrow>
             (case compileExpr c1 rhs of
                Inl e \<Rightarrow> Inl e
              | Inr (r, c2) \<Rightarrow>
                  (case newNode (graph c2) (BinaryExprNode op) of
                     (node, g) \<Rightarrow>
                       (case NewEdge (setReadNode (setReadNode (addInput (addInput g node l) node r)
                                                     l node) r node) (Some node) of
                          ((w, out), g1) \<Rightarrow> Inr (out, c2\<lparr>graph := setOutput g1 node w\<rparr>))))))"
| "compileExpr c _ = Inl (Error ''unimplemented'')"

definition validateFields :: "compiledStatement \<Rightarrow> failure + unit" where
  "validateFields c =
     (if length (FunctionCalls c) > 1 \<and> TopBottomFunction c \<noteq> [] then
        Inl (Errorf ''selector function %s() cannot be combined with other functions''
               [S (TopBottomFunction c)])
      else Inr ())"

definition linkAuxiliaryFields :: "compiledStatement \<Rightarrow> failure + compiledStatement" where
  "linkAuxiliaryFields c =
     (case AuxiliaryFields c of
        None \<Rightarrow>
          if length (FunctionCalls c) = 0
          then Inl (Error ''at least 1 non-time field must be queried'')
          else Inr c
      | Some aux \<Rightarrow>
          if \<not> OnlySelectors c then
            Inl (Errorf ''mixing aggregate and non-aggregate queries is not supported'' [])
          else if length (FunctionCalls c) > 1 then
            Inl (Errorf ''mixing multiple selector functions with tags or fields is not supported'' [])
          else if length (FunctionCalls c) = 1 then
            (case Insert (graph c) (FunctionCalls c ! 0) aux of
               ((inp, out), g) \<Rightarrow> Inr (c\<lparr>graph := setOutput (addInput g aux inp) aux out\<rparr>))
          else
            (case compileVarRef c None (Some aux) of
               Inl e \<Rightarrow> Inl e
             | Inr (inp, c1) \<Rightarrow> Inr (c1\<lparr>graph := addInput (graph c1) aux inp\<rparr>)))"

text \<open>The second argument of a \<^verbatim>\<open>time()\<close> dimension sets the offset of the interval.\<close>

fun Compile_offset :: "compiledStatement \<Rightarrow> Expr \<Rightarrow> failure + compiledStatement" where
  "Compile_offset c (DurationLiteral val) =
     (if Duration (Interval c) = 0 then Inl (Panic ''runtime error: integer divide by zero'')
      else Inr (c\<lparr>Interval := (Interval c)\<lparr>Offset := go_rem val (Duration (Interval c))\<rparr>\<rparr>))"
| "Compile_offset c (TimeLiteral val) =
     Inr (c\<lparr>Interval := (Interval c)\<lparr>Offset := Sub val (Truncate val (Duration (Interval c)))\<rparr>\<rparr>)"
| "Compile_offset c (Call name args) =
     (if name \<noteq> ''now'' then Inl (Error ''time dimension offset function must be now()'')
      else if length args \<noteq> 0 then
        Inl (Error ''time dimension offset now() function requires no arguments'')
      else Inr (c\<lparr>Interval := (Interval c)\<lparr>Offset :=
                   Sub (Now (Options c)) (Truncate (Now (Options c)) (Duration (Interval c)))\<rparr>\<rparr>))"
| "Compile_offset c _ = Inl (Error ''time dimension offset must be duration or now()'')"

text \<open>One iteration of the loop of \<^verbatim>\<open>Compile\<close> over the dimensions.\<close>

fun Compile_dimension :: "compiledStatement \<Rightarrow> Expr \<Rightarrow> failure + compiledStatement" where
  "Compile_dimension c (VarRef val) =
     (if ToLower val = ''time''
      then Inl (Error ''time() is a function and expects at least one argument'')
      else Inr (c\<lparr>Dimensions := Dimensions c @ [val]\<rparr>))"
| "Compile_dimension c (Call name args) =
     (if name \<noteq> ''time'' then Inl (Error ''only time() calls allowed in dimensions'')
      else if length args < 1 \<or> length args > 2 then
        Inl (Error ''time dimension expected 1 or 2 arguments'')
      else
        (case asDurationLiteral (args ! 0) of
           None \<Rightarrow> Inl (Error ''time dimension must have duration argument'')
         | Some val \<Rightarrow>
             if Duration (Interval c) \<noteq> 0 then Inl (Error ''multiple time dimensions not allowed'')
             else if length args = 2
               then Compile_offset (c\<lparr>Interval := (Interval c)\<lparr>Duration := val\<rparr>\<rparr>) (args ! 1)
               else Inr (c\<lparr>Interval := (Interval c)\<lparr>Duration := val\<rparr>\<rparr>)))"
| "Compile_dimension c Wildcard = Inr c"
| "Compile_dimension c (RegexLiteral val) = Inl (Error ''unimplemented'')"
| "Compile_dimension c _ = Inl (Error ''only time and tag dimensions allowed'')"

fun Compile_dimensions :: "compiledStatement \<Rightarrow> Dimension list \<Rightarrow> failure + compiledStatement" where
  "Compile_dimensions c [] = Inr c"
| "Compile_dimensions c (d # ds) =
     (case Compile_dimension c (dimensionExpr d) of
        Inl e \<Rightarrow> Inl e
      | Inr c1 \<Rightarrow> Compile_dimensions c1 ds)"

text \<open>The loop over the fields: a bare \<^verbatim>\<open>time\<close> field is skipped.\<close>

fun Compile_fields :: "compiledStatement \<Rightarrow> Field list \<Rightarrow> failure + compiledStatement" where
  "Compile_fields c [] = Inr c"
| "Compile_fields c (f # fs) =
     (if asVarRef (fieldExpr f) = Some ''time'' then Compile_fields c fs
      else
        (case compileExpr c (fieldExpr f) of
           Inl e \<Rightarrow> Inl e
         | Inr (out, c1) \<Rightarrow> Compile_fields (c1\<lparr>OutputEdges := OutputEdges c1 @ [out]\<rparr>) fs))"

definition Compile ::
  "Time \<Rightarrow> SelectStatement \<Rightarrow> CompileOptions \<Rightarrow> failure + compiledStatement" where
  "Compile wallclock stmt opt =
     (let c = newCompiler wallclock stmt opt;
          c0 = c\<lparr>Sources := Sources c @ stmtSources stmt\<rparr>
      in (case Compile_dimensions c0 (stmtDimensions stmt) of
            Inl e \<Rightarrow> Inl e
          | Inr c1 \<Rightarrow>
              (case Compile_fields c1 (stmtFields stmt) of
                 Inl e \<Rightarrow> Inl e
               | Inr c2 \<Rightarrow>
                   (case validateFields c2 of
                      Inl e \<Rightarrow> Inl e
                    | Inr u \<Rightarrow> linkAuxiliaryFields c2))))"

section \<open>The statement compiler (second draft, lines 364 to 821)\<close>

text \<open>
  The second draft builds the graph top-down: the caller allocates the write edge a
  node must fill and passes it in. Its per-field state is a \<^verbatim>\<open>compiledField\<close> that
  reaches the statement through the pointer \<^verbatim>\<open>global\<close>. The pointer and the heap are
  threaded beside the field in a \<open>fieldState\<close>; \<open>global = None\<close> is the \<^verbatim>\<open>nil\<close>
  pointer, whose first dereference panics. (\<^verbatim>\<open>Symbols\<close> is never written and is left
  out.)
\<close>

datatype DataType = StringType | BooleanType

record wildcard =
  NameFilters :: "string list"
  TypeFilters :: "DataType set"

record compiledField =
  Field_f :: Field
  Output_f :: nat
  Wildcard_f :: "wildcard option"

record compiledStatement2 =
  Sources2 :: "Source list"
  Dimensions2 :: "string list"
  Interval2 :: Interval
  FunctionCalls2 :: "nat list"
  OnlySelectors2 :: bool
  TopBottomFunction2 :: string
  AuxiliaryFields2 :: "nat option"
  Fields2 :: "compiledField list"
  Options2 :: CompileOptions

record fieldState =
  heap :: Graph
  self :: compiledField
  global :: "compiledStatement2 option"

definition nilDereference :: failure where
  "nilDereference = Panic ''runtime error: invalid memory address or nil pointer dereference''"

definition newCompiler2 :: "Time \<Rightarrow> SelectStatement \<Rightarrow> CompileOptions \<Rightarrow> compiledStatement2" where
  "newCompiler2 wallclock stmt opt =
     \<lparr>Sources2 = [], Dimensions2 = [], Interval2 = \<lparr>Duration = 0, Offset = 0\<rparr>,
      FunctionCalls2 = [], OnlySelectors2 = True, TopBottomFunction2 = [],
      AuxiliaryFields2 = None, Fields2 = [],
      Options2 = (if IsZero (Now opt) then opt\<lparr>Now := wallclock\<rparr> else opt)\<rparr>"

definition requireAuxiliaryFields :: "Graph \<Rightarrow> compiledStatement2 \<Rightarrow> Graph \<times> compiledStatement2" where
  "requireAuxiliaryFields h c =
     (case AuxiliaryFields2 c of
        Some aux \<Rightarrow> (h, c)
      | None \<Rightarrow>
          (case newNode h (AuxiliaryFieldsNode []) of
             (aux, h1) \<Rightarrow> (h1, c\<lparr>AuxiliaryFields2 := Some aux\<rparr>)))"

text \<open>\<^verbatim>\<open>c.global.requireAuxiliaryFields()\<close> as called from a field.\<close>

definition global_requireAuxiliaryFields :: "fieldState \<Rightarrow> failure + fieldState" where
  "global_requireAuxiliaryFields s =
     (case global s of
        None \<Rightarrow> Inl nilDereference
      | Some c \<Rightarrow>
          (case requireAuxiliaryFields (heap s) c of
             (h, c1) \<Rightarrow> Inr (s\<lparr>heap := h, global := Some c1\<rparr>)))"

definition wildcard :: "compiledField \<Rightarrow> compiledField" where
  "wildcard f =
     (case Wildcard_f f of
        None \<Rightarrow> f\<lparr>Wildcard_f := Some \<lparr>NameFilters = [], TypeFilters = {}\<rparr>\<rparr>
      | Some w \<Rightarrow> f)"

definition wildcardFilter :: "compiledField \<Rightarrow> string \<Rightarrow> compiledField" where
  "wildcardFilter f re =
     (let f1 = wildcard f
      in f1\<lparr>Wildcard_f := map_option (\<lambda>w. w\<lparr>NameFilters := NameFilters w @ [re]\<rparr>) (Wildcard_f f1)\<rparr>)"

definition wildcardFunction :: "compiledField \<Rightarrow> string \<Rightarrow> compiledField" where
  "wildcardFunction f name =
     (let f1 = wildcard f
      in if name \<in> set [''count'', ''first'', ''last'', ''distinct'', ''elapsed'', ''mode'', ''sample''] then
           f1\<lparr>Wildcard_f := map_option (\<lambda>w. w\<lparr>TypeFilters := insert BooleanType (TypeFilters w)\<rparr>) (Wildcard_f f1)\<rparr>
         else if name \<in> set [''min'', ''max''] then f1
         else
           f1\<lparr>Wildcard_f := map_option (\<lambda>w. w\<lparr>TypeFilters := insert StringType (TypeFilters w)\<rparr>) (Wildcard_f f1)\<rparr>)"

definition wildcardFunctionFilter :: "compiledField \<Rightarrow> string \<Rightarrow> string \<Rightarrow> compiledField" where
  "wildcardFunctionFilter f name re =
     (let f1 = wildcardFunction f name
      in f1\<lparr>Wildcard_f := map_option (\<lambda>w. w\<lparr>NameFilters := NameFilters w @ [re]\<rparr>) (Wildcard_f f1)\<rparr>)"

text \<open>The loop of the second \<^verbatim>\<open>compileVarRef\<close>: a source of another kind is an error value.\<close>

fun compileVarRef2_sources :: "string option \<Rightarrow> nat \<Rightarrow> Source list \<Rightarrow> Graph \<Rightarrow> failure + Graph" where
  "compileVarRef2_sources ref merge [] h = Inr h"
| "compileVarRef2_sources ref merge (Measurement m # rest) h =
     (case newNode h (IteratorCreatorNode ref (Measurement m)) of
        (ic, h1) \<Rightarrow>
          (case Merge_AddInput h1 merge ic of
             (w, h2) \<Rightarrow> compileVarRef2_sources ref merge rest (setOutput h2 ic w)))"
| "compileVarRef2_sources ref merge (SubQuery q # rest) h = Inl (Error ''unimplemented'')"

definition compileVarRef2 ::
  "Graph \<Rightarrow> compiledStatement2 \<Rightarrow> string option \<Rightarrow> nat \<Rightarrow> failure + Graph" where
  "compileVarRef2 h c ref out =
     (case newNode h MergeNode of
        (merge, h1) \<Rightarrow>
          (case compileVarRef2_sources ref merge (Sources2 c) (setOutput h1 merge out) of
             Inl e \<Rightarrow> Inl e
           | Inr h2 \<Rightarrow> Inr (setWriteNode h2 out merge)))"

text \<open>\<^verbatim>\<open>c.global.compileVarRef(ref, out)\<close> as called from a field.\<close>

definition global_compileVarRef :: "fieldState \<Rightarrow> string option \<Rightarrow> nat \<Rightarrow> failure + fieldState" where
  "global_compileVarRef s ref out =
     (case global s of
        None \<Rightarrow> Inl nilDereference
      | Some c \<Rightarrow>
          (case compileVarRef2 (heap s) c ref out of
             Inl e \<Rightarrow> Inl e
           | Inr h \<Rightarrow> Inr (s\<lparr>heap := h\<rparr>)))"

definition compileDistinct2 ::
  "fieldState \<Rightarrow> Expr list \<Rightarrow> nat \<Rightarrow> bool \<Rightarrow> failure + fieldState" where
  "compileDistinct2 s args out nested =
     (if length args = 0 then Inl (Error ''distinct function requires at least one argument'')
      else if length args \<noteq> 1 then Inl (Error ''distinct function can only have one argument'')
      else
        (case asVarRef (args ! 0) of
           None \<Rightarrow> Inl (Error ''expected field argument in distinct()'')
         | Some arg0 \<Rightarrow>
             (case newNode (heap s) DistinctNode of
                (d, h) \<Rightarrow>
                  (case (if nested then Inr (global s)
                         else (case global s of
                                 None \<Rightarrow> Inl nilDereference
                               | Some c \<Rightarrow>
                                   Inr (Some (c\<lparr>FunctionCalls2 := FunctionCalls2 c
                                                 @ [wOutput (writeEdges h ! out)]\<rparr>)))) of
                     Inl e \<Rightarrow> Inl e
                   | Inr gl \<Rightarrow>
                       (case AddEdge (setWriteNode (setOutput h d out) out d) None (Some d) of
                          ((out1, inp), h1) \<Rightarrow>
                            global_compileVarRef (s\<lparr>heap := addInput h1 d inp, global := gl\<rparr>)
                              (Some arg0) out1)))))"

definition compileFunction2 ::
  "fieldState \<Rightarrow> string \<Rightarrow> Expr list \<Rightarrow> nat \<Rightarrow> failure + fieldState" where
  "compileFunction2 s name args out =
     (if 1 \<noteq> length args then
        Inl (Errorf ''invalid number of arguments for %s, expected %d, got %d''
               [S name, D 1, D (int (length args))])
      else
        (case global s of
           None \<Rightarrow> Inl nilDereference
         | Some c \<Rightarrow>
             (case newNode (heap s) (FunctionCallNode name) of
                (call, h) \<Rightarrow>
                  (case AddEdge (setWriteNode (setOutput h call out) out call) None (Some call) of
                     ((out1, inp), h1) \<Rightarrow>
                       (let c1 = c\<lparr>FunctionCalls2 := FunctionCalls2 c @ [wOutput (writeEdges h ! out)]\<rparr>;
                            c2 = (if name \<in> set [''max'', ''min'', ''first'', ''last'',
                                                  ''percentile'', ''sample'']
                                  then c1 else c1\<lparr>OnlySelectors2 := False\<rparr>);
                            s1 = s\<lparr>heap := addInput h1 call inp, global := Some c2\<rparr>
                        in (case (if name = ''count'' then
                                    (case args ! 0 of
                                       Call n as \<Rightarrow> if n = ''distinct'' then Some as else None
                                     | Distinct val \<Rightarrow> Some (snd (NewCall val))
                                     | _ \<Rightarrow> None)
                                  else None) of
                              Some dargs \<Rightarrow> compileDistinct2 s1 dargs out1 True
                            | None \<Rightarrow>
                                (case args ! 0 of
                                   VarRef arg0 \<Rightarrow> global_compileVarRef s1 (Some arg0) out1
                                 | Wildcard \<Rightarrow> Inr (s1\<lparr>self := wildcardFunction (self s1) name\<rparr>)
                                 | RegexLiteral val \<Rightarrow>
                                     Inr (s1\<lparr>self := wildcardFunctionFilter (self s1) name val\<rparr>)
                                 | _ \<Rightarrow> Inl (Errorf ''expected field argument in %s()'' [S name]))))))))"

definition compileTopBottom2 ::
  "fieldState \<Rightarrow> string \<Rightarrow> Expr list \<Rightarrow> nat \<Rightarrow> failure + fieldState" where
  "compileTopBottom2 s name args out =
     (case global s of
        None \<Rightarrow> Inl nilDereference
      | Some c \<Rightarrow>
          if TopBottomFunction2 c \<noteq> [] then
            Inl (Errorf ''selector function %s() cannot be combined with other functions''
                   [S (TopBottomFunction2 c)])
          else if length args < 2 then
            Inl (Errorf ''invalid number of arguments for %s, expected at least %d, got %d''
                   [S name, D 2, D (int (length args))])
          else
            (case asVarRef (args ! 0) of
               None \<Rightarrow> Inl (Errorf ''expected field argument in %s()'' [S name])
             | Some ref \<Rightarrow>
                 (case (if length args > 2
                        then compileTopBottom_dimensions name (butlast (tl args)) else Inr []) of
                    Inl e \<Rightarrow> Inl e
                  | Inr dimensions \<Rightarrow>
                      (case asIntegerLiteral (last args) of
                         None \<Rightarrow>
                           Inl (Errorf ''expected integer as last argument in %s(), found %s''
                                  [S name, V (last args)])
                       | Some limit \<Rightarrow>
                           if limit \<le> 0 then
                             Inl (Errorf ''limit (%d) in %s function must be at least 1''
                                    [D limit, S name])
                           else
                             (case newNode (heap s) (TopBottomSelectorNode dimensions) of
                                (selector, h) \<Rightarrow>
                                  (case AddEdge (setWriteNode (setOutput h selector out) out selector)
                                          None (Some selector) of
                                     ((out1, inp), h1) \<Rightarrow>
                                       global_compileVarRef
                                         (s\<lparr>heap := addInput h1 selector inp,
                                            global := Some (c\<lparr>TopBottomFunction2 := name\<rparr>)\<rparr>)
                                         (Some ref) out1))))))"

fun compileExpr2 :: "fieldState \<Rightarrow> Expr \<Rightarrow> nat \<Rightarrow> failure + fieldState" where
  "compileExpr2 s (VarRef val) out = global_requireAuxiliaryFields s"
| "compileExpr2 s Wildcard out =
     (case global_requireAuxiliaryFields s of
        Inl e \<Rightarrow> Inl e
      | Inr s1 \<Rightarrow> Inl (Error ''unimplemented''))"
| "compileExpr2 s (RegexLiteral val) out =
     (case global_requireAuxiliaryFields s of
        Inl e \<Rightarrow> Inl e
      | Inr s1 \<Rightarrow> Inl (Error ''unimplemented''))"
| "compileExpr2 s (Call name args) out =
     (if name \<in> set [''count'', ''min'', ''max'', ''sum'', ''first'', ''last'', ''mean'']
      then compileFunction2 s name args out
      else if name = ''distinct'' then compileDistinct2 s args out False
      else if name \<in> set [''top'', ''bottom''] then compileTopBottom2 s name args out
      else Inl (Error ''unimplemented''))"
| "compileExpr2 s (Distinct val) out = compileDistinct2 s (snd (NewCall val)) out False"
| "compileExpr2 s (BinaryExpr op lhs rhs) out =
     (if isLiteral lhs then Inl (Error ''unimplemented'')
      else if isLiteral rhs then Inl (Error ''unimplemented'')
      else
        (case newNode (heap s) (BinaryExprNode op) of
           (node, h) \<Rightarrow>
             (case AddEdge (setWriteNode (setOutput h node out) out node) None (Some node) of
                ((l, linp), h1) \<Rightarrow>
                  (case compileExpr2 (s\<lparr>heap := addInput h1 node linp\<rparr>) lhs l of
                     Inl e \<Rightarrow> Inl e
                   | Inr s1 \<Rightarrow>
                       (case AddEdge (heap s1) None (Some node) of
                          ((r, rinp), h2) \<Rightarrow>
                            compileExpr2 (s1\<lparr>heap := addInput h2 node rinp\<rparr>) rhs r)))))"
| "compileExpr2 s _ out = Inl (Error ''unimplemented'')"

definition validateFields2 :: "compiledStatement2 \<Rightarrow> failure + unit" where
  "validateFields2 c =
     (if length (FunctionCalls2 c) > 1 \<and> TopBottomFunction2 c \<noteq> [] then
        Inl (Errorf ''selector function %s() cannot be combined with other functions''
               [S (TopBottomFunction2 c)])
      else Inr ())"

definition linkAuxiliaryFields2 :: "Graph \<Rightarrow> compiledStatement2 \<Rightarrow> failure + Graph" where
  "linkAuxiliaryFields2 h c =
     (case AuxiliaryFields2 c of
        None \<Rightarrow>
          if length (FunctionCalls2 c) = 0
          then Inl (Error ''at least 1 non-time field must be queried'')
          else Inr h
      | Some aux \<Rightarrow>
          if \<not> OnlySelectors2 c then
            Inl (Errorf ''mixing aggregate and non-aggregate queries is not supported'' [])
          else if length (FunctionCalls2 c) > 1 then
            Inl (Errorf ''mixing multiple selector functions with tags or fields is not supported'' [])
          else if length (FunctionCalls2 c) = 1 then
            (case Insert h (FunctionCalls2 c ! 0) aux of
               ((inp, out), h1) \<Rightarrow> Inr (setOutput (addInput h1 aux inp) aux out))
          else
            (case AddEdge h None (Some aux) of
               ((out, inp), h1) \<Rightarrow> compileVarRef2 (addInput h1 aux inp) c None out))"

fun Compile2_offset :: "compiledStatement2 \<Rightarrow> Expr \<Rightarrow> failure + compiledStatement2" where
  "Compile2_offset c (DurationLiteral val) =
     (if Duration (Interval2 c) = 0 then Inl (Panic ''runtime error: integer divide by zero'')
      else Inr (c\<lparr>Interval2 := (Interval2 c)\<lparr>Offset := go_rem val (Duration (Interval2 c))\<rparr>\<rparr>))"
| "Compile2_offset c (TimeLiteral val) =
     Inr (c\<lparr>Interval2 := (Interval2 c)\<lparr>Offset := Sub val (Truncate val (Duration (Interval2 c)))\<rparr>\<rparr>)"
| "Compile2_offset c (Call name args) =
     (if name \<noteq> ''now'' then Inl (Error ''time dimension offset function must be now()'')
      else if length args \<noteq> 0 then
        Inl (Error ''time dimension offset now() function requires no arguments'')
      else Inr (c\<lparr>Interval2 := (Interval2 c)\<lparr>Offset :=
                   Sub (Now (Options2 c)) (Truncate (Now (Options2 c)) (Duration (Interval2 c)))\<rparr>\<rparr>))"
| "Compile2_offset c _ = Inl (Error ''time dimension offset must be duration or now()'')"

fun Compile2_dimension :: "compiledStatement2 \<Rightarrow> Expr \<Rightarrow> failure + compiledStatement2" where
  "Compile2_dimension c (VarRef val) =
     (if ToLower val = ''time''
      then Inl (Error ''time() is a function and expects at least one argument'')
      else Inr (c\<lparr>Dimensions2 := Dimensions2 c @ [val]\<rparr>))"
| "Compile2_dimension c (Call name args) =
     (if name \<noteq> ''time'' then Inl (Error ''only time() calls allowed in dimensions'')
      else if length args < 1 \<or> length args > 2 then
        Inl (Error ''time dimension expected 1 or 2 arguments'')
      else
        (case asDurationLiteral (args ! 0) of
           None \<Rightarrow> Inl (Error ''time dimension must have duration argument'')
         | Some val \<Rightarrow>
             if Duration (Interval2 c) \<noteq> 0 then Inl (Error ''multiple time dimensions not allowed'')
             else if length args = 2
               then Compile2_offset (c\<lparr>Interval2 := (Interval2 c)\<lparr>Duration := val\<rparr>\<rparr>) (args ! 1)
               else Inr (c\<lparr>Interval2 := (Interval2 c)\<lparr>Duration := val\<rparr>\<rparr>)))"
| "Compile2_dimension c Wildcard = Inl (Error ''unimplemented'')"
| "Compile2_dimension c (RegexLiteral val) = Inl (Error ''unimplemented'')"
| "Compile2_dimension c _ = Inl (Error ''only time and tag dimensions allowed'')"

fun Compile2_dimensions :: "compiledStatement2 \<Rightarrow> Dimension list \<Rightarrow> failure + compiledStatement2" where
  "Compile2_dimensions c [] = Inr c"
| "Compile2_dimensions c (d # ds) =
     (case Compile2_dimension c (dimensionExpr d) of
        Inl e \<Rightarrow> Inl e
      | Inr c1 \<Rightarrow> Compile2_dimensions c1 ds)"

text \<open>
  The loop over the fields. Each field is built as
  \<^verbatim>\<open>&compiledField{Field: f, Output: out}\<close>: its \<^verbatim>\<open>global\<close> pointer is left \<^verbatim>\<open>nil\<close>, so the
  field state handed to \<^verbatim>\<open>compileExpr\<close> has \<open>global = None\<close>, and nothing the field
  does reaches the statement \<open>c\<close>.
\<close>

fun Compile2_fields ::
  "Graph \<Rightarrow> compiledStatement2 \<Rightarrow> Field list \<Rightarrow> failure + (Graph \<times> compiledStatement2)" where
  "Compile2_fields h c [] = Inr (h, c)"
| "Compile2_fields h c (f # fs) =
     (if asVarRef (fieldExpr f) = Some ''time'' then Compile2_fields h c fs
      else
        (case NewEdge h None of
           ((inp, out), h1) \<Rightarrow>
             (case compileExpr2 \<lparr>heap = h1,
                                 self = \<lparr>Field_f = f, Output_f = out, Wildcard_f = None\<rparr>,
                                 global = None\<rparr> (fieldExpr f) inp of
                Inl e \<Rightarrow> Inl e
              | Inr s \<Rightarrow> Compile2_fields (heap s) (c\<lparr>Fields2 := Fields2 c @ [self s]\<rparr>) fs)))"

definition Compile2 ::
  "Time \<Rightarrow> SelectStatement \<Rightarrow> CompileOptions \<Rightarrow> failure + (Graph \<times> compiledStatement2)" where
  "Compile2 wallclock stmt opt =
     (let c = newCompiler2 wallclock stmt opt;
          c0 = c\<lparr>Sources2 := Sources2 c @ stmtSources stmt\<rparr>
      in (case Compile2_dimensions c0 (stmtDimensions stmt) of
            Inl e \<Rightarrow> Inl e
          | Inr c1 \<Rightarrow>
              (case Compile2_fields emptyGraph c1 (stmtFields stmt) of
                 Inl e \<Rightarrow> Inl e
               | Inr (h, c2) \<Rightarrow>
                   (case validateFields2 c2 of
                      Inl e \<Rightarrow> Inl e
                    | Inr u \<Rightarrow>
                        (case linkAuxiliaryFields2 h c2 of
                           Inl e \<Rightarrow> Inl e
                         | Inr h1 \<Rightarrow> Inr (h1, c2))))))"

section \<open>Vocabulary for the properties\<close>

fun isMeasurement :: "Source \<Rightarrow> bool" where
  "isMeasurement (Measurement m) = True"
| "isMeasurement (SubQuery q) = False"

text \<open>A dimension entry \<^verbatim>\<open>time(d, ...)\<close> whose first argument is a nonzero duration literal.\<close>

fun nonzeroTime :: "Dimension \<Rightarrow> bool" where
  "nonzeroTime (Dimension (Call name (DurationLiteral d # rest))) = (name = ''time'' \<and> d \<noteq> 0)"
| "nonzeroTime _ = False"

text \<open>A field that is a function call at its top level.\<close>

fun isCallField :: "Field \<Rightarrow> bool" where
  "isCallField (Field (Call name args)) = True"
| "isCallField _ = False"

text \<open>The state \<^verbatim>\<open>Compile\<close> starts the dimension loop in.\<close>

definition Compile_start :: "Time \<Rightarrow> SelectStatement \<Rightarrow> CompileOptions \<Rightarrow> compiledStatement" where
  "Compile_start wallclock stmt opt =
     (newCompiler wallclock stmt opt)\<lparr>Sources := stmtSources stmt\<rparr>"

text \<open>The parts of the compile state that compiling an expression never writes.\<close>

definition settings ::
  "compiledStatement \<Rightarrow> Source list \<times> string list \<times> Interval \<times> CompileOptions \<times> nat list" where
  "settings c = (Sources c, Dimensions c, Interval c, Options c, OutputEdges c)"

text \<open>Example statements, all reading from the measurement \<^verbatim>\<open>cpu\<close>.\<close>

definition select :: "Expr list \<Rightarrow> Expr list \<Rightarrow> Source list \<Rightarrow> SelectStatement" where
  "select fs ds srcs =
     \<lparr>stmtFields = map Field fs, stmtDimensions = map Dimension ds, stmtSources = srcs\<rparr>"

definition cpu :: "Source list" where
  "cpu = [Measurement ''cpu'']"

definition minute :: Duration where
  "minute = 60000000000"

definition scenarioE :: SelectStatement where
  "scenarioE = select [Call ''mean'' [VarRef ''value'']]
                 [Call ''time'' [DurationLiteral (5 * minute), DurationLiteral minute]] cpu"

definition countDistinct :: SelectStatement where
  "countDistinct = select [Call ''count'' [Call ''distinct'' [VarRef ''value'']]] [] cpu"

definition fromSubQuery :: SelectStatement where
  "fromSubQuery = select [VarRef ''value''] [] [Measurement ''cpu'', SubQuery ''q'']"

definition addOne :: SelectStatement where
  "addOne = select [BinaryExpr ADD (VarRef ''value'') (IntegerLiteral 1)] [] cpu"

definition valueAndMax :: SelectStatement where
  "valueAndMax = select [VarRef ''value'', Call ''max'' [VarRef ''value'']] [] cpu"

definition onlyTime :: SelectStatement where
  "onlyTime = select [VarRef ''time''] [] cpu"

text \<open>A field state of the second draft as \<^verbatim>\<open>Compile\<close> creates it, on an empty heap.\<close>

definition idleField :: fieldState where
  "idleField = \<lparr>heap = emptyGraph,
                 self = \<lparr>Field_f = Field Wildcard, Output_f = 0, Wildcard_f = None\<rparr>,
                 global = None\<rparr>"

definition zeroThenFive :: SelectStatement where
  "zeroThenFive = select [Call ''mean'' [VarRef ''value'']]
     [Call ''time'' [DurationLiteral 0], Call ''time'' [DurationLiteral (5 * minute)]] cpu"

definition oneThenFive :: SelectStatement where
  "oneThenFive = select [Call ''mean'' [VarRef ''value'']]
     [Call ''time'' [DurationLiteral minute], Call ''time'' [DurationLiteral (5 * minute)]] cpu"

text \<open>A field that is \<^verbatim>\<open>distinct(x)\<close> on a bare reference, as a call or as a \<^verbatim>\<open>Distinct\<close> node.\<close>

fun distinctField :: "Field \<Rightarrow> bool" where
  "distinctField (Field (Call name [VarRef x])) = (name = ''distinct'')"
| "distinctField (Field (Distinct x)) = True"
| "distinctField _ = False"

text \<open>A field that is a bare reference.\<close>

fun referenceField :: "Field \<Rightarrow> bool" where
  "referenceField (Field (VarRef y)) = True"
| "referenceField _ = False"

definition selectorMessage :: "string \<Rightarrow> failure" where
  "selectorMessage name =
     Errorf ''selector function %s() cannot be combined with other functions'' [S name]"

definition topThenMean :: SelectStatement where
  "topThenMean = select [Call ''top'' [VarRef ''value'', IntegerLiteral 3],
                         Call ''mean'' [VarRef ''value'']] [] cpu"

definition maxThenBottom :: SelectStatement where
  "maxThenBottom = select [Call ''max'' [VarRef ''value''],
                           Call ''bottom'' [VarRef ''value'', VarRef ''host'', IntegerLiteral 3]] [] cpu"

definition distinctAndValue :: SelectStatement where
  "distinctAndValue = select [Call ''distinct'' [VarRef ''value''], VarRef ''host'']
                        [VarRef ''region''] cpu"

definition fiveThenThreeArgs :: SelectStatement where
  "fiveThenThreeArgs = select [Call ''mean'' [VarRef ''value'']]
     [Call ''time'' [DurationLiteral (5 * minute)],
      Call ''time'' [DurationLiteral minute, DurationLiteral 2, DurationLiteral 3]] cpu"

definition offsetNow :: SelectStatement where
  "offsetNow = select [Call ''mean'' [VarRef ''value'']]
                 [Call ''time'' [DurationLiteral minute, Call ''now'' []]] cpu"

text \<open>
  A field state of the second draft whose \<^verbatim>\<open>global\<close> pointer is set, on a heap that
  holds the one edge \<^verbatim>\<open>Compile\<close> allocates for the field.
\<close>

definition boundField :: fieldState where
  "boundField =
     \<lparr>heap = snd (NewEdge emptyGraph None),
      self = \<lparr>Field_f = Field (Call ''count'' [Call ''distinct'' [VarRef ''value'']]),
               Output_f = 0, Wildcard_f = None\<rparr>,
      global = Some ((newCompiler2 0 countDistinct \<lparr>Now = 1\<rparr>)\<lparr>Sources2 := cpu\<rparr>)\<rparr>"

section \<open>Properties\<close>

subsection \<open>Determinism and the wall clock\<close>

text \<open>
  C8. With an explicit (non-zero) \<^verbatim>\<open>Now\<close> in the options, the result of \<^verbatim>\<open>Compile\<close> -- the
  whole compile state, with its operator graph and its interval -- does not depend on
  the wall clock: two runs on the same statement and options agree, whatever
  \<^verbatim>\<open>time.Now()\<close> returns in each.
\<close>

theorem Compile_deterministic:
  "\<not> IsZero (Now opt) \<Longrightarrow> Compile wallclock1 stmt opt = Compile wallclock2 stmt opt"
  by (simp add: Compile_def newCompiler_def)

theorem Compile_deterministic_witness:
  "\<not> IsZero (Now \<lparr>Now = 1\<rparr>) \<and> Compile 5 scenarioE \<lparr>Now = 1\<rparr> = Compile 9 scenarioE \<lparr>Now = 1\<rparr>"
  using Compile_deterministic [of "\<lparr>Now = 1\<rparr>" 5 scenarioE 9]
  by (simp add: IsZero_def)

subsection \<open>A zero bucket duration with a duration offset\<close>

text \<open>
  C9. A dimension entry \<^verbatim>\<open>time(0s, o)\<close> with a duration-literal offset makes the offset
  computation take a remainder by zero: \<^verbatim>\<open>Compile\<close> panics instead of returning an
  error value, in both drafts.
\<close>

theorem Compile_time_zero_panics:
  "Compile wallclock
     (stmt\<lparr>stmtDimensions := Dimension (Call ''time'' [DurationLiteral 0, DurationLiteral off]) # ds\<rparr>)
     opt = Inl (Panic ''runtime error: integer divide by zero'')
   \<and> Compile2 wallclock
     (stmt\<lparr>stmtDimensions := Dimension (Call ''time'' [DurationLiteral 0, DurationLiteral off]) # ds\<rparr>)
     opt = Inl (Panic ''runtime error: integer divide by zero'')"
  by (simp add: Compile_def Compile2_def newCompiler_def newCompiler2_def)

subsection \<open>Unfolding and frame lemmas\<close>

lemmas graph_defs = newNode_def AddEdge_def NewEdge_def addInput_def setOutput_def setReadNode_def
  setWriteNode_def Merge_AddInput_def Insert_def AuxiliaryFields_Iterator_def emptyGraph_def

lemmas compile_defs = Compile_def newCompiler_def compileFunction_def compileDistinct_def
  compileVarRef_def compileTopBottom_def compileFunction_mark_def compileExpr_aux_def
  validateFields_def linkAuxiliaryFields_def select_def cpu_def NewCall_def

text \<open>
  With the option left at the zero time the wall clock is read, and it shows in the
  result: \<^verbatim>\<open>GROUP BY time(1m, now())\<close> compiled at two clock readings gives two offsets.
\<close>

lemma Compile_reads_clock_when_unset:
  "Compile 60 offsetNow \<lparr>Now = 0\<rparr> \<noteq> Compile 61 offsetNow \<lparr>Now = 0\<rparr>"
  by (simp add: offsetNow_def minute_def IsZero_def Truncate_def Sub_def minDuration_def
        maxDuration_def compile_defs graph_defs)

lemma compileVarRef_sources_ok:
  "\<forall>s\<in>set srcs. isMeasurement s \<Longrightarrow> \<exists>g'. compileVarRef_sources ref m srcs g = Inr g'"
proof (induction srcs arbitrary: g)
  case Nil
  then show ?case by simp
next
  case (Cons s srcs)
  then show ?case by (cases s) (auto split: prod.splits)
qed

lemma compileVarRef_sources_failure:
  "compileVarRef_sources ref m srcs g = Inl e \<Longrightarrow> e = Panic ''unimplemented''"
proof (induction srcs arbitrary: g)
  case Nil
  then show ?case by simp
next
  case (Cons s srcs)
  then show ?case by (cases s) (auto split: prod.splits)
qed

lemma compileVarRef_sources_SubQuery:
  "compileVarRef_sources ref m (map Measurement ms @ SubQuery q # rest) g = Inl (Panic ''unimplemented'')"
  by (induction ms arbitrary: g) (auto split: prod.splits)

lemma compileVarRef_ok:
  assumes "\<forall>s\<in>set (Sources c). isMeasurement s"
  shows "\<exists>e c'. compileVarRef c ref n = Inr (e, c')"
proof -
  obtain merge g where n: "newNode (graph c) MergeNode = (merge, g)"
    by (cases "newNode (graph c) MergeNode")
  from compileVarRef_sources_ok [OF assms] obtain g1
    where s: "compileVarRef_sources ref merge (Sources c) g = Inr g1" by blast
  show ?thesis unfolding compileVarRef_def using n s by (auto split: prod.splits)
qed

lemma compileVarRef_failure:
  "compileVarRef c ref n = Inl e \<Longrightarrow> e = Panic ''unimplemented''"
  by (auto simp: compileVarRef_def split: prod.splits sum.splits dest: compileVarRef_sources_failure)

lemma compileVarRef_frame:
  "compileVarRef c ref n = Inr (e, c') \<Longrightarrow>
     settings c' = settings c \<and> FunctionCalls c' = FunctionCalls c
     \<and> OnlySelectors c' = OnlySelectors c \<and> TopBottomFunction c' = TopBottomFunction c
     \<and> AuxiliaryFields c' = AuxiliaryFields c"
  by (auto simp: compileVarRef_def settings_def split: prod.splits sum.splits)

lemma compileDistinct_frame:
  "compileDistinct c args = Inr (e, c') \<Longrightarrow>
     settings c' = settings c \<and> FunctionCalls c' = FunctionCalls c @ [e]
     \<and> OnlySelectors c' = OnlySelectors c \<and> TopBottomFunction c' = TopBottomFunction c
     \<and> AuxiliaryFields c' = AuxiliaryFields c"
  by (auto simp: compileDistinct_def settings_def
           split: prod.splits sum.splits option.splits if_splits dest!: compileVarRef_frame)

lemma compileFunction_distinct_frame:
  "compileFunction_distinct c a = Inr (i, c') \<Longrightarrow>
     settings c' = settings c \<and> OnlySelectors c' = OnlySelectors c
     \<and> TopBottomFunction c' = TopBottomFunction c \<and> AuxiliaryFields c' = AuxiliaryFields c
     \<and> FunctionCalls c' = FunctionCalls c @ (case i of None \<Rightarrow> [] | Some d \<Rightarrow> [d])"
  by (cases a) (auto split: if_splits sum.splits dest!: compileDistinct_frame)

lemma compileFunction_frame:
  assumes "compileFunction c name args = Inr (e, c')"
  shows "(FunctionCalls c' = FunctionCalls c @ [e] \<or> (\<exists>d. FunctionCalls c' = FunctionCalls c @ [d, e]))
         \<and> OnlySelectors c' = OnlySelectors (compileFunction_mark name c)
         \<and> TopBottomFunction c' = TopBottomFunction (compileFunction_mark name c)
         \<and> AuxiliaryFields c' = AuxiliaryFields c \<and> settings c' = settings c"
proof -
  from assms have len: "length args = 1"
    by (auto simp: compileFunction_def split: if_splits)
  from assms len obtain input0 c1 where
    d: "(if name = ''count'' then compileFunction_distinct c (args ! 0) else Inr (None, c))
          = Inr (input0, c1)"
    by (auto simp: compileFunction_def split: sum.splits)
  then have c1: "settings c1 = settings c \<and> OnlySelectors c1 = OnlySelectors c
     \<and> TopBottomFunction c1 = TopBottomFunction c \<and> AuxiliaryFields c1 = AuxiliaryFields c
     \<and> FunctionCalls c1 = FunctionCalls c @ (case input0 of None \<Rightarrow> [] | Some d \<Rightarrow> [d])"
    by (auto split: if_splits dest!: compileFunction_distinct_frame)
  from assms len d obtain input c2 where
    i: "(case input0 of Some i \<Rightarrow> Inr (i, c1)
         | None \<Rightarrow> (case asVarRef (args ! 0) of
                      None \<Rightarrow> Inl (Errorf ''expected field argument in %s()'' [S name])
                    | Some arg0 \<Rightarrow> compileVarRef c1 (Some arg0) None)) = Inr (input, c2)"
    by (auto simp: compileFunction_def split: sum.splits)
  then have c2: "settings c2 = settings c1 \<and> FunctionCalls c2 = FunctionCalls c1
     \<and> OnlySelectors c2 = OnlySelectors c1 \<and> TopBottomFunction c2 = TopBottomFunction c1
     \<and> AuxiliaryFields c2 = AuxiliaryFields c1"
    by (auto split: option.splits dest!: compileVarRef_frame)
  obtain call g where nn: "newNode (graph c2) (FunctionCallNode name) = (call, g)"
    by (cases "newNode (graph c2) (FunctionCallNode name)")
  obtain w out g3 where
    ne: "NewEdge (setReadNode (addInput g call input) input call) (Some call) = ((w, out), g3)"
    by (cases "NewEdge (setReadNode (addInput g call input) input call) (Some call)") auto
  from assms len d i nn ne have
    c': "c' = (compileFunction_mark name c2)\<lparr>graph := setOutput g3 call w,
               FunctionCalls := FunctionCalls (compileFunction_mark name c2) @ [out]\<rparr>"
    and e: "e = out"
    by (auto simp add: compileFunction_def Let_def)
  show ?thesis using c1 c2
    by (auto simp: c' e compileFunction_mark_def settings_def split: option.splits)
qed

lemma compileTopBottom_frame:
  "compileTopBottom c name args = Inr (e, c') \<Longrightarrow>
     TopBottomFunction c = [] \<and> TopBottomFunction c' = name \<and>
     settings c' = settings c \<and> FunctionCalls c' = FunctionCalls c @ [e]
     \<and> OnlySelectors c' = OnlySelectors c \<and> AuxiliaryFields c' = AuxiliaryFields c"
  by (auto simp: compileTopBottom_def settings_def
           split: prod.splits sum.splits option.splits if_splits dest!: compileVarRef_frame)

lemma compileExpr_aux_frame:
  "compileExpr_aux c = (aux, c') \<Longrightarrow>
     settings c' = settings c \<and> FunctionCalls c' = FunctionCalls c
     \<and> OnlySelectors c' = OnlySelectors c \<and> TopBottomFunction c' = TopBottomFunction c
     \<and> AuxiliaryFields c' = Some aux"
  by (auto simp: compileExpr_aux_def settings_def newNode_def split: option.splits)

lemma compileExpr_frame:
  "compileExpr c x = Inr (e, c') \<Longrightarrow>
     settings c' = settings c \<and> (\<exists>new. FunctionCalls c' = FunctionCalls c @ new)
     \<and> (TopBottomFunction c \<noteq> [] \<longrightarrow> TopBottomFunction c' = TopBottomFunction c)"
proof (induction c x arbitrary: e c' rule: compileExpr.induct)
  case (1 c val)
  then show ?case
    by (auto simp: settings_def split: prod.splits dest!: compileExpr_aux_frame)
next
  case (2 c name args)
  then show ?case
    by (auto simp: compileFunction_mark_def split: if_splits
             dest!: compileFunction_frame compileDistinct_frame compileTopBottom_frame)
next
  case (3 c val)
  then show ?case by (auto dest!: compileDistinct_frame)
next
  case (4 c op lhs rhs)
  from "4.prems" have nl: "\<not> isLiteral lhs" "\<not> isLiteral rhs" by (auto split: if_splits)
  from "4.prems" nl obtain l c1 where l: "compileExpr c lhs = Inr (l, c1)"
    by (auto split: sum.splits)
  from "4.prems" nl l obtain r c2 where r: "compileExpr c1 rhs = Inr (r, c2)"
    by (auto split: sum.splits)
  from "4.prems" nl l r have c': "settings c' = settings c2 \<and> FunctionCalls c' = FunctionCalls c2
      \<and> TopBottomFunction c' = TopBottomFunction c2"
    by (auto simp: settings_def split: prod.splits)
  from "4.IH"(1) [OF nl l] "4.IH"(2) [OF nl l _ r] c' show ?case
    by auto
qed auto

subsection \<open>count(distinct(x))\<close>

text \<open>
  In the second draft the nested \<^verbatim>\<open>distinct\<close> is compiled with \<^verbatim>\<open>nested = true\<close> and does
  not register: after \<^verbatim>\<open>count(distinct(...))\<close> the statement's list has grown by exactly
  the edge of the enclosing \<^verbatim>\<open>count\<close>.
\<close>

lemma global_compileVarRef_frame:
  "global_compileVarRef s ref out = Inr s' \<Longrightarrow> global s' = global s \<and> self s' = self s"
  by (auto simp: global_compileVarRef_def split: option.splits sum.splits)

lemma compileDistinct2_nested_frame:
  "compileDistinct2 s args out True = Inr s' \<Longrightarrow> global s' = global s \<and> self s' = self s"
  by (auto simp: compileDistinct2_def split: if_splits option.splits prod.splits
           dest!: global_compileVarRef_frame)

lemma compileFunction2_count_distinct:
  "compileFunction2 s ''count'' [Call ''distinct'' args] out = Inr s' \<Longrightarrow> global s = Some c \<Longrightarrow>
     global s' = Some (c\<lparr>FunctionCalls2 := FunctionCalls2 c @ [wOutput (writeEdges (heap s) ! out)],
                        OnlySelectors2 := False\<rparr>)"
  by (auto simp: compileFunction2_def Let_def newNode_def split: prod.splits
           dest!: compileDistinct2_nested_frame)

theorem compileFunction2_count_distinct_witness:
  "map_sum id (\<lambda>s. map_option FunctionCalls2 (global s))
     (compileFunction2 boundField ''count'' [Call ''distinct'' [VarRef ''value'']] 0)
   = Inr (Some [0])"
proof -
  let ?r = "compileFunction2 boundField ''count'' [Call ''distinct'' [VarRef ''value'']] 0"
  have "\<not> isl ?r"
    by (simp add: boundField_def compileFunction2_def compileDistinct2_def
          global_compileVarRef_def compileVarRef2_def newCompiler2_def cpu_def graph_defs Let_def)
  then have eq: "?r = Inr (projr ?r)" by (cases ?r) auto
  have g: "global boundField
             = Some ((newCompiler2 0 countDistinct \<lparr>Now = 1\<rparr>)\<lparr>Sources2 := cpu\<rparr>)"
    by (simp add: boundField_def)
  from compileFunction2_count_distinct [OF eq g]
  have "map_option FunctionCalls2 (global (projr ?r)) = Some [0]"
    by (simp add: boundField_def newCompiler2_def graph_defs)
  with eq show ?thesis by (metis map_sum.simps(2))
qed

text \<open>
  C1. The first draft has no such flag: \<^verbatim>\<open>compileFunction\<close> calls \<^verbatim>\<open>compileDistinct\<close>,
  which appends its output edge, and then appends the edge of \<^verbatim>\<open>count\<close> itself. On
  \<^verbatim>\<open>SELECT count(distinct(value)) FROM cpu\<close> the compiled statement holds two registered
  function calls, the edge of the nested \<^verbatim>\<open>distinct\<close> and the edge of \<^verbatim>\<open>count\<close>.
\<close>

theorem count_distinct_registers_two:
  "map_sum id FunctionCalls (Compile 0 countDistinct \<lparr>Now = 1\<rparr>) = Inr [2, 3]"
  by (simp add: countDistinct_def compile_defs graph_defs)

subsection \<open>Sources that are not measurements\<close>

lemma compileVarRef2_sources_SubQuery:
  "compileVarRef2_sources ref m (map Measurement ms @ SubQuery q # rest) g
     = Inl (Error ''unimplemented'')"
  by (induction ms arbitrary: g) (auto split: prod.splits)

text \<open>The second draft returns the error value, at the first source that is not a measurement.\<close>

lemma compileVarRef2_unimplemented:
  "compileVarRef2 h (c\<lparr>Sources2 := map Measurement ms @ SubQuery q # rest\<rparr>) ref out
     = Inl (Error ''unimplemented'')"
  by (simp add: compileVarRef2_def compileVarRef2_sources_SubQuery split: prod.splits)

text \<open>
  C2. The first draft checks the kind per source as well, but on the first source that
  is not a measurement \<^verbatim>\<open>compileVarRef\<close> panics: whatever measurements come first, no
  error value is returned; \<^verbatim>\<open>SELECT value FROM cpu, (subquery)\<close> aborts \<^verbatim>\<open>Compile\<close>.
\<close>

theorem compileVarRef_panics:
  "compileVarRef (c\<lparr>Sources := map Measurement ms @ SubQuery q # rest\<rparr>) ref node
     = Inl (Panic ''unimplemented'')
   \<and> Compile 0 fromSubQuery \<lparr>Now = 1\<rparr> = Inl (Panic ''unimplemented'')"
  by (simp add: compileVarRef_def compileVarRef_sources_SubQuery fromSubQuery_def
        compile_defs graph_defs split: prod.splits)

subsection \<open>Binary expressions with a literal side\<close>

text \<open>
  A binary expression of two references does compile (first draft).
\<close>

lemma binary_of_references_compiles:
  "\<not> isl (Compile 0 (select [BinaryExpr ADD (VarRef ''a'') (VarRef ''b'')] [] cpu) \<lparr>Now = 1\<rparr>)"
  by (simp add: compile_defs graph_defs)

text \<open>
  The claim that one literal side is folded and compilation succeeds fails on
  \<^verbatim>\<open>SELECT value + 1 FROM cpu\<close>: the result is the error \<^verbatim>\<open>unimplemented\<close>.
\<close>

theorem literal_side_counterexample:
  "Compile 0 addOne \<lparr>Now = 1\<rparr> = Inl (Error ''unimplemented'')"
  by (simp add: addOne_def compile_defs)

text \<open>
  C3 (amended). Whenever at least one side of a binary expression is a literal, both
  drafts return the error \<^verbatim>\<open>unimplemented\<close> without compiling either side: the two
  literal branches of \<^verbatim>\<open>compileExpr\<close> are empty and fall through to the final return.
\<close>

theorem literal_side_unimplemented:
  "isLiteral lhs \<or> isLiteral rhs \<Longrightarrow>
     compileExpr c (BinaryExpr op lhs rhs) = Inl (Error ''unimplemented'')
     \<and> compileExpr2 s (BinaryExpr op lhs rhs) out = Inl (Error ''unimplemented'')"
  by auto

theorem literal_side_unimplemented_witness:
  "(isLiteral (VarRef ''value'') \<or> isLiteral (IntegerLiteral 1))
   \<and> compileExpr (Compile_start 0 addOne \<lparr>Now = 1\<rparr>)
        (BinaryExpr ADD (VarRef ''value'') (IntegerLiteral 1)) = Inl (Error ''unimplemented'')
   \<and> compileExpr2 idleField
        (BinaryExpr ADD (VarRef ''value'') (IntegerLiteral 1)) 0 = Inl (Error ''unimplemented'')"
  using literal_side_unimplemented
    [of "VarRef ''value''" "IntegerLiteral 1" "Compile_start 0 addOne \<lparr>Now = 1\<rparr>" ADD idleField 0]
  by simp

subsection \<open>Auxiliary fields and registered function calls at the end of compilation\<close>

lemma linkAuxiliaryFields_frame:
  "linkAuxiliaryFields c = Inr c' \<Longrightarrow>
     settings c' = settings c \<and> FunctionCalls c' = FunctionCalls c
     \<and> OnlySelectors c' = OnlySelectors c \<and> TopBottomFunction c' = TopBottomFunction c
     \<and> AuxiliaryFields c' = AuxiliaryFields c"
  by (auto simp: linkAuxiliaryFields_def settings_def
           split: option.splits if_splits prod.splits sum.splits dest!: compileVarRef_frame)

lemma linkAuxiliaryFields_ok:
  "linkAuxiliaryFields c = Inr c' \<Longrightarrow>
     (AuxiliaryFields c \<noteq> None \<or> FunctionCalls c \<noteq> [])
     \<and> (AuxiliaryFields c \<noteq> None \<longrightarrow> OnlySelectors c \<and> length (FunctionCalls c) \<le> 1)"
  by (auto simp: linkAuxiliaryFields_def split: option.splits if_splits)

lemma Compile_result:
  "Compile w stmt opt = Inr c \<Longrightarrow>
     \<exists>c1 c2. Compile_dimensions (Compile_start w stmt opt) (stmtDimensions stmt) = Inr c1
       \<and> Compile_fields c1 (stmtFields stmt) = Inr c2 \<and> validateFields c2 = Inr ()
       \<and> linkAuxiliaryFields c2 = Inr c"
  by (auto simp: Compile_def Compile_start_def newCompiler_def Let_def split: sum.splits)

lemma Compile_fields_time:
  "\<forall>f\<in>set fs. fieldExpr f = VarRef ''time'' \<Longrightarrow> Compile_fields c fs = Inr c"
  by (induction fs) auto

lemma Compile_offset_frame:
  "Compile_offset c x = Inr c' \<Longrightarrow>
     Sources c' = Sources c \<and> Options c' = Options c \<and> OutputEdges c' = OutputEdges c
     \<and> Dimensions c' = Dimensions c
     \<and> FunctionCalls c' = FunctionCalls c \<and> OnlySelectors c' = OnlySelectors c
     \<and> TopBottomFunction c' = TopBottomFunction c \<and> AuxiliaryFields c' = AuxiliaryFields c
     \<and> graph c' = graph c \<and> Duration (Interval c') = Duration (Interval c)"
  by (cases x) (auto split: if_splits)

lemma Compile_dimension_frame:
  "Compile_dimension c x = Inr c' \<Longrightarrow>
     Sources c' = Sources c \<and> Options c' = Options c \<and> OutputEdges c' = OutputEdges c
     \<and> FunctionCalls c' = FunctionCalls c \<and> OnlySelectors c' = OnlySelectors c
     \<and> TopBottomFunction c' = TopBottomFunction c \<and> AuxiliaryFields c' = AuxiliaryFields c
     \<and> graph c' = graph c"
  by (cases x) (auto split: if_splits option.splits dest!: Compile_offset_frame)

lemma Compile_dimensions_frame:
  "Compile_dimensions c ds = Inr c' \<Longrightarrow>
     Sources c' = Sources c \<and> Options c' = Options c \<and> OutputEdges c' = OutputEdges c
     \<and> FunctionCalls c' = FunctionCalls c \<and> OnlySelectors c' = OnlySelectors c
     \<and> TopBottomFunction c' = TopBottomFunction c \<and> AuxiliaryFields c' = AuxiliaryFields c
     \<and> graph c' = graph c"
proof (induction ds arbitrary: c)
  case Nil
  then show ?case by simp
next
  case (Cons d ds)
  then obtain c1 where s: "Compile_dimension c (dimensionExpr d) = Inr c1"
    and r: "Compile_dimensions c1 ds = Inr c'"
    by (auto split: sum.splits)
  from Compile_dimension_frame [OF s] Cons.IH [OF r] show ?case by simp
qed

text \<open>
  The claim that exactly one of the two holds fails on
  \<^verbatim>\<open>SELECT value, max(value) FROM cpu\<close>: compilation succeeds with the auxiliary-fields
  node present and one function call registered.
\<close>

theorem exactly_one_counterexample:
  "map_sum id (\<lambda>c. (AuxiliaryFields c, FunctionCalls c)) (Compile 0 valueAndMax \<lparr>Now = 1\<rparr>)
     = Inr (Some 0, [3])"
  by (simp add: valueAndMax_def compile_defs graph_defs)

text \<open>
  C4 (amended). At the end of every successful compilation at least one of the two
  holds: the auxiliary-fields node is present or a function call is registered; both
  hold together only for a statement of selectors with a single registered call. When
  neither holds, \<^verbatim>\<open>linkAuxiliaryFields\<close> (in both drafts) returns the error
  \<^verbatim>\<open>at least 1 non-time field must be queried\<close>, and so does \<^verbatim>\<open>Compile\<close> on a statement
  whose dimensions are accepted and whose fields are all the bare \<^verbatim>\<open>time\<close>.
\<close>

theorem aux_or_function_call:
  "(Compile w stmt opt = Inr c \<longrightarrow>
      (AuxiliaryFields c \<noteq> None \<or> FunctionCalls c \<noteq> [])
      \<and> (AuxiliaryFields c \<noteq> None \<longrightarrow> OnlySelectors c \<and> length (FunctionCalls c) \<le> 1))
   \<and> (AuxiliaryFields c2 = None \<and> FunctionCalls c2 = [] \<longrightarrow>
        linkAuxiliaryFields c2 = Inl (Error ''at least 1 non-time field must be queried''))
   \<and> (AuxiliaryFields2 d = None \<and> FunctionCalls2 d = [] \<longrightarrow>
        linkAuxiliaryFields2 h d = Inl (Error ''at least 1 non-time field must be queried''))
   \<and> ((\<forall>f\<in>set (stmtFields stmt). fieldExpr f = VarRef ''time'')
        \<and> \<not> isl (Compile_dimensions (Compile_start w stmt opt) (stmtDimensions stmt)) \<longrightarrow>
        Compile w stmt opt = Inl (Error ''at least 1 non-time field must be queried''))"
proof (intro conjI impI)
  assume "Compile w stmt opt = Inr c"
  from Compile_result [OF this] obtain c2 where l: "linkAuxiliaryFields c2 = Inr c" by blast
  from linkAuxiliaryFields_ok [OF l] linkAuxiliaryFields_frame [OF l]
  show "AuxiliaryFields c \<noteq> None \<or> FunctionCalls c \<noteq> []" by simp
  assume "AuxiliaryFields c \<noteq> None"
  with linkAuxiliaryFields_ok [OF l] linkAuxiliaryFields_frame [OF l]
  show "OnlySelectors c" "length (FunctionCalls c) \<le> 1" by simp_all
next
  assume "AuxiliaryFields c2 = None \<and> FunctionCalls c2 = []"
  then show "linkAuxiliaryFields c2 = Inl (Error ''at least 1 non-time field must be queried'')"
    by (simp add: linkAuxiliaryFields_def)
next
  assume "AuxiliaryFields2 d = None \<and> FunctionCalls2 d = []"
  then show "linkAuxiliaryFields2 h d = Inl (Error ''at least 1 non-time field must be queried'')"
    by (simp add: linkAuxiliaryFields2_def)
next
  assume a: "(\<forall>f\<in>set (stmtFields stmt). fieldExpr f = VarRef ''time'')
        \<and> \<not> isl (Compile_dimensions (Compile_start w stmt opt) (stmtDimensions stmt))"
  then obtain c1 where
    d: "Compile_dimensions (Compile_start w stmt opt) (stmtDimensions stmt) = Inr c1"
    by (cases "Compile_dimensions (Compile_start w stmt opt) (stmtDimensions stmt)") auto
  from a have f: "Compile_fields c1 (stmtFields stmt) = Inr c1" by (simp add: Compile_fields_time)
  from Compile_dimensions_frame [OF d] have
    "AuxiliaryFields c1 = None" "FunctionCalls c1 = []"
    by (simp_all add: Compile_start_def newCompiler_def)
  then show "Compile w stmt opt = Inl (Error ''at least 1 non-time field must be queried'')"
    using d f unfolding Compile_def Compile_start_def
    by (simp add: Let_def newCompiler_def validateFields_def linkAuxiliaryFields_def)
qed

theorem aux_or_function_call_witness:
  "\<not> isl (Compile 0 valueAndMax \<lparr>Now = 1\<rparr>)
   \<and> AuxiliaryFields (projr (Compile 0 valueAndMax \<lparr>Now = 1\<rparr>)) = Some 0
   \<and> OnlySelectors (projr (Compile 0 valueAndMax \<lparr>Now = 1\<rparr>))
   \<and> length (FunctionCalls (projr (Compile 0 valueAndMax \<lparr>Now = 1\<rparr>))) = 1
   \<and> Compile 0 onlyTime \<lparr>Now = 1\<rparr> = Inl (Error ''at least 1 non-time field must be queried'')"
proof -
  have ok: "\<not> isl (Compile 0 valueAndMax \<lparr>Now = 1\<rparr>)"
    by (simp add: valueAndMax_def compile_defs graph_defs)
  then have eq: "Compile 0 valueAndMax \<lparr>Now = 1\<rparr> = Inr (projr (Compile 0 valueAndMax \<lparr>Now = 1\<rparr>))"
    by (cases "Compile 0 valueAndMax \<lparr>Now = 1\<rparr>") auto
  have aux: "AuxiliaryFields (projr (Compile 0 valueAndMax \<lparr>Now = 1\<rparr>)) = Some 0"
    by (simp add: valueAndMax_def compile_defs graph_defs)
  have n: "length (FunctionCalls (projr (Compile 0 valueAndMax \<lparr>Now = 1\<rparr>))) = 1"
    by (simp add: valueAndMax_def compile_defs graph_defs)
  have t: "\<forall>f\<in>set (stmtFields onlyTime). fieldExpr f = VarRef ''time''"
    by (simp add: onlyTime_def select_def)
  have dims: "\<not> isl (Compile_dimensions (Compile_start 0 onlyTime \<lparr>Now = 1\<rparr>)
                        (stmtDimensions onlyTime))"
    by (simp add: onlyTime_def select_def)
  from aux_or_function_call
         [of 0 valueAndMax "\<lparr>Now = 1\<rparr>" "projr (Compile 0 valueAndMax \<lparr>Now = 1\<rparr>)"] eq aux
  have sel: "OnlySelectors (projr (Compile 0 valueAndMax \<lparr>Now = 1\<rparr>))" by simp
  from aux_or_function_call [of 0 onlyTime "\<lparr>Now = 1\<rparr>"] t dims
  have "Compile 0 onlyTime \<lparr>Now = 1\<rparr> = Inl (Error ''at least 1 non-time field must be queried'')"
    by blast
  with ok aux sel n show ?thesis by blast
qed

subsection \<open>The time() dimension\<close>

lemma nonzeroTime_cases:
  "nonzeroTime e \<Longrightarrow>
     \<exists>name d rest. e = Dimension (Call name (DurationLiteral d # rest)) \<and> d \<noteq> 0"
  by (erule nonzeroTime.elims(2)) blast

lemma Compile_dimension_set:
  "Duration (Interval c) \<noteq> 0 \<Longrightarrow> Compile_dimension c x = Inr c' \<Longrightarrow>
     Interval c' = Interval c \<and> \<not> nonzeroTime (Dimension x)"
  by (cases x) (auto split: if_splits option.splits)

lemma Compile_dimension_time:
  "Compile_dimension c (Call name (DurationLiteral d # rest)) = Inr c' \<Longrightarrow>
     Duration (Interval c') = d \<and> name = ''time'' \<and> Options c' = Options c"
  by (auto split: if_splits dest!: Compile_offset_frame)

lemma Compile_dimension_offset:
  "Compile_dimension c (Call name [DurationLiteral d, x]) = Inr c' \<Longrightarrow> d \<noteq> 0 \<Longrightarrow>
     (\<forall>off. x = DurationLiteral off \<longrightarrow> Offset (Interval c') = go_rem off d)
     \<and> (\<forall>t. x = TimeLiteral t \<longrightarrow> Offset (Interval c') = Sub t (Truncate t d))
     \<and> (\<forall>n a. x = Call n a \<longrightarrow>
           Offset (Interval c') = Sub (Now (Options c)) (Truncate (Now (Options c)) d))"
  by (cases x) (auto split: if_splits)

lemma Compile_dimensions_set:
  "Duration (Interval c) \<noteq> 0 \<Longrightarrow> Compile_dimensions c ds = Inr c' \<Longrightarrow>
     Interval c' = Interval c \<and> filter nonzeroTime ds = []"
proof (induction ds arbitrary: c)
  case Nil
  then show ?case by simp
next
  case (Cons d ds)
  from Cons.prems obtain c1 where s: "Compile_dimension c (dimensionExpr d) = Inr c1"
    and r: "Compile_dimensions c1 ds = Inr c'"
    by (auto split: sum.splits)
  from Compile_dimension_set [OF Cons.prems(1) s]
  have i: "Interval c1 = Interval c" and n: "\<not> nonzeroTime d" by simp_all
  from Cons.prems(1) i have "Duration (Interval c1) \<noteq> 0" by simp
  from Cons.IH [OF this r] i n show ?case by simp
qed

lemma Compile_dimensions_interval:
  assumes "Compile_dimensions c ds = Inr c'"
    and "Dimension (Call name (DurationLiteral d # rest)) \<in> set ds" and "d \<noteq> 0"
  shows "Duration (Interval c') = d \<and> Options c' = Options c
     \<and> (\<forall>x. rest = [x] \<longrightarrow>
           (\<forall>off. x = DurationLiteral off \<longrightarrow> Offset (Interval c') = go_rem off d)
         \<and> (\<forall>t. x = TimeLiteral t \<longrightarrow> Offset (Interval c') = Sub t (Truncate t d))
         \<and> (\<forall>n a. x = Call n a \<longrightarrow>
               Offset (Interval c') = Sub (Now (Options c)) (Truncate (Now (Options c)) d)))"
  using assms
proof (induction ds arbitrary: c)
  case Nil
  then show ?case by simp
next
  case (Cons e ds)
  from Cons.prems(1) obtain c1 where s: "Compile_dimension c (dimensionExpr e) = Inr c1"
    and r: "Compile_dimensions c1 ds = Inr c'"
    by (auto split: sum.splits)
  have o1: "Options c1 = Options c" using Compile_dimension_frame [OF s] by simp
  have o': "Options c' = Options c1" using Compile_dimensions_frame [OF r] by simp
  show ?case
  proof (cases "e = Dimension (Call name (DurationLiteral d # rest))")
    case True
    with s have s': "Compile_dimension c (Call name (DurationLiteral d # rest)) = Inr c1" by simp
    from Compile_dimension_time [OF s'] have d1: "Duration (Interval c1) = d" by simp
    with \<open>d \<noteq> 0\<close> have "Duration (Interval c1) \<noteq> 0" by simp
    from Compile_dimensions_set [OF this r] have i: "Interval c' = Interval c1" by simp
    show ?thesis
    proof (intro conjI allI impI)
      show "Duration (Interval c') = d" using i d1 by simp
      show "Options c' = Options c" using o1 o' by simp
    next
      fix x off assume "rest = [x]" "x = DurationLiteral off"
      with s' Compile_dimension_offset [of c name d x c1] \<open>d \<noteq> 0\<close> i
      show "Offset (Interval c') = go_rem off d" by simp
    next
      fix x t assume "rest = [x]" "x = TimeLiteral t"
      with s' Compile_dimension_offset [of c name d x c1] \<open>d \<noteq> 0\<close> i
      show "Offset (Interval c') = Sub t (Truncate t d)" by simp
    next
      fix x n a assume "rest = [x]" "x = Call n a"
      with s' Compile_dimension_offset [of c name d x c1] \<open>d \<noteq> 0\<close> i
      show "Offset (Interval c') = Sub (Now (Options c)) (Truncate (Now (Options c)) d)" by simp
    qed
  next
    case False
    with Cons.prems(2) have "Dimension (Call name (DurationLiteral d # rest)) \<in> set ds" by simp
    from Cons.IH [OF r this \<open>d \<noteq> 0\<close>] o1 show ?thesis by simp
  qed
qed

lemma Compile_dimensions_append:
  "Compile_dimensions c (xs @ ys) =
     (case Compile_dimensions c xs of Inl e \<Rightarrow> Inl e | Inr c1 \<Rightarrow> Compile_dimensions c1 ys)"
  by (induction xs arbitrary: c) (auto split: sum.splits)

lemma Compile_dimension_nonzero:
  assumes s: "Compile_dimension c (dimensionExpr e) = Inr c1" and t: "nonzeroTime e"
  shows "Duration (Interval c1) \<noteq> 0"
proof -
  from nonzeroTime_cases [OF t] obtain name d rest
    where e: "e = Dimension (Call name (DurationLiteral d # rest))" and d: "d \<noteq> 0"
    by blast
  from s have "Compile_dimension c (Call name (DurationLiteral d # rest)) = Inr c1"
    unfolding e by (simp only: Dimension.sel)
  from Compile_dimension_time [OF this] d show ?thesis by simp
qed

lemma Compile_dimensions_at_most_one:
  "Compile_dimensions c ds = Inr c' \<Longrightarrow> length (filter nonzeroTime ds) \<le> 1"
proof (induction ds arbitrary: c)
  case Nil
  then show ?case by simp
next
  case (Cons e ds)
  from Cons.prems(1) obtain c1 where s: "Compile_dimension c (dimensionExpr e) = Inr c1"
    and r: "Compile_dimensions c1 ds = Inr c'"
    by (auto split: sum.splits)
  show ?case
  proof (cases "nonzeroTime e")
    case True
    from Compile_dimension_nonzero [OF s True] have "Duration (Interval c1) \<noteq> 0" .
    from Compile_dimensions_set [OF this r] have "filter nonzeroTime ds = []" by simp
    with True show ?thesis by simp
  next
    case False
    with Cons.IH [OF r] show ?thesis by simp
  qed
qed

lemma go_rem_mod: "0 \<le> x \<Longrightarrow> 0 < y \<Longrightarrow> go_rem x y = x mod y"
  by (cases "x = 0") (simp_all add: go_rem_def)


lemma Compile_unfold:
  "Compile w stmt opt =
     (case Compile_dimensions (Compile_start w stmt opt) (stmtDimensions stmt) of
        Inl e \<Rightarrow> Inl e
      | Inr c1 \<Rightarrow>
          (case Compile_fields c1 (stmtFields stmt) of
             Inl e \<Rightarrow> Inl e
           | Inr c2 \<Rightarrow>
               (case validateFields c2 of
                  Inl e \<Rightarrow> Inl e
                | Inr u \<Rightarrow> linkAuxiliaryFields c2)))"
  by (simp add: Compile_def Compile_start_def newCompiler_def Let_def)

lemma Compile_fields_frame:
  "Compile_fields c fs = Inr c' \<Longrightarrow>
     Sources c' = Sources c \<and> Dimensions c' = Dimensions c \<and> Interval c' = Interval c
     \<and> Options c' = Options c \<and> (\<exists>new. FunctionCalls c' = FunctionCalls c @ new)
     \<and> (TopBottomFunction c \<noteq> [] \<longrightarrow> TopBottomFunction c' = TopBottomFunction c)"
proof (induction fs arbitrary: c)
  case Nil
  then show ?case by simp
next
  case (Cons f fs)
  show ?case
  proof (cases "asVarRef (fieldExpr f) = Some ''time''")
    case True
    with Cons.prems have "Compile_fields c fs = Inr c'" by simp
    from Cons.IH [OF this] show ?thesis .
  next
    case False
    with Cons.prems obtain out c1 where x: "compileExpr c (fieldExpr f) = Inr (out, c1)"
      and r: "Compile_fields (c1\<lparr>OutputEdges := OutputEdges c1 @ [out]\<rparr>) fs = Inr c'"
      by (auto split: sum.splits)
    from compileExpr_frame [OF x] Cons.IH [OF r] show ?thesis
      by (auto simp: settings_def)
  qed
qed

text \<open>
  C7. When compilation succeeds and the dimensions contain \<^verbatim>\<open>time(d, x)\<close> with a nonzero
  duration literal \<open>d\<close>, the compiled interval has duration \<open>d\<close>, and its offset is:
  for a duration literal \<open>off\<close>, Go's remainder \<^verbatim>\<open>off % d\<close> (which is \<open>off mod d\<close> for
  \<open>0 \<le> off\<close> and \<open>0 < d\<close>); for a time literal \<open>t\<close>, \<open>t\<close> minus \<open>t\<close> truncated to
  \<open>d\<close>; for \<^verbatim>\<open>now()\<close>, the configured now reference minus its truncation to \<open>d\<close>, where
  the reference is the option's \<^verbatim>\<open>Now\<close>, or the wall clock when the option is the zero
  time. The witness is \<^verbatim>\<open>GROUP BY time(5m, 1m)\<close>: duration 5 minutes, offset 1 minute.
\<close>

theorem time_interval:
  assumes "Compile w stmt opt = Inr c"
    and "Dimension (Call ''time'' [DurationLiteral d, x]) \<in> set (stmtDimensions stmt)"
    and "d \<noteq> 0"
  shows "Duration (Interval c) = d
     \<and> (\<forall>off. x = DurationLiteral off \<longrightarrow>
            Offset (Interval c) = go_rem off d
            \<and> (0 \<le> off \<and> 0 < d \<longrightarrow> Offset (Interval c) = off mod d))
     \<and> (\<forall>t. x = TimeLiteral t \<longrightarrow> Offset (Interval c) = Sub t (Truncate t d))
     \<and> (x = Call ''now'' [] \<longrightarrow>
            Offset (Interval c) = Sub (Now (Options c)) (Truncate (Now (Options c)) d))
     \<and> Now (Options c) = (if IsZero (Now opt) then w else Now opt)"
proof -
  from Compile_result [OF assms(1)] obtain c1 c2 where
    d: "Compile_dimensions (Compile_start w stmt opt) (stmtDimensions stmt) = Inr c1"
    and f: "Compile_fields c1 (stmtFields stmt) = Inr c2"
    and l: "linkAuxiliaryFields c2 = Inr c" by blast
  from Compile_fields_frame [OF f] linkAuxiliaryFields_frame [OF l]
  have i: "Interval c = Interval c1" and o: "Options c = Options c1"
    by (simp_all add: settings_def)
  have o1: "Options c1 = Options (Compile_start w stmt opt)"
    using Compile_dimensions_frame [OF d] by simp
  have now: "Now (Options (Compile_start w stmt opt)) = (if IsZero (Now opt) then w else Now opt)"
    by (simp add: Compile_start_def newCompiler_def)
  note k = Compile_dimensions_interval [OF d assms(2) assms(3)]
  show ?thesis
  proof (intro conjI allI impI)
    show "Duration (Interval c) = d" using k i by simp
    show "Now (Options c) = (if IsZero (Now opt) then w else Now opt)"
      using o o1 now by simp
  next
    fix off assume x: "x = DurationLiteral off"
    with k i show g: "Offset (Interval c) = go_rem off d" by simp
    assume "0 \<le> off \<and> 0 < d"
    with g show "Offset (Interval c) = off mod d" by (simp add: go_rem_mod)
  next
    fix t assume "x = TimeLiteral t"
    with k i show "Offset (Interval c) = Sub t (Truncate t d)" by simp
  next
    assume "x = Call ''now'' []"
    with k i o o1
    show "Offset (Interval c) = Sub (Now (Options c)) (Truncate (Now (Options c)) d)" by simp
  qed
qed

theorem time_interval_witness:
  "\<not> isl (Compile 0 scenarioE \<lparr>Now = 1\<rparr>)
   \<and> Duration (Interval (projr (Compile 0 scenarioE \<lparr>Now = 1\<rparr>))) = 5 * minute
   \<and> Offset (Interval (projr (Compile 0 scenarioE \<lparr>Now = 1\<rparr>))) = minute"
proof -
  have ok: "\<not> isl (Compile 0 scenarioE \<lparr>Now = 1\<rparr>)"
    by (simp add: scenarioE_def minute_def go_rem_def compile_defs graph_defs)
  then have eq: "Compile 0 scenarioE \<lparr>Now = 1\<rparr> = Inr (projr (Compile 0 scenarioE \<lparr>Now = 1\<rparr>))"
    by (cases "Compile 0 scenarioE \<lparr>Now = 1\<rparr>") auto
  have m: "Dimension (Call ''time'' [DurationLiteral (5 * minute), DurationLiteral minute])
             \<in> set (stmtDimensions scenarioE)"
    by (simp add: scenarioE_def select_def)
  have nz: "5 * minute \<noteq> 0" by (simp add: minute_def)
  from time_interval [OF eq m nz]
  have "Duration (Interval (projr (Compile 0 scenarioE \<lparr>Now = 1\<rparr>))) = 5 * minute"
    and "Offset (Interval (projr (Compile 0 scenarioE \<lparr>Now = 1\<rparr>))) = minute mod (5 * minute)"
    by (simp_all add: minute_def)
  with ok show ?thesis by (simp add: minute_def)
qed

text \<open>
  The claim that two \<^verbatim>\<open>time()\<close> entries are always rejected with that error fails on
  \<^verbatim>\<open>GROUP BY time(0s), time(5m)\<close>: the first entry leaves the duration at zero, which is
  also the mark of "no interval yet", and the second is accepted. It also fails on
  \<^verbatim>\<open>GROUP BY time(5m), time(1m, 2, 3)\<close>, where the argument count of the second entry is
  checked, and reported, before the duplicate is.
\<close>

theorem two_time_counterexample:
  "map_sum id Interval (Compile 0 zeroThenFive \<lparr>Now = 1\<rparr>)
     = Inr \<lparr>Duration = 5 * minute, Offset = 0\<rparr>
   \<and> Compile 0 fiveThenThreeArgs \<lparr>Now = 1\<rparr>
     = Inl (Error ''time dimension expected 1 or 2 arguments'')"
  by (simp add: zeroThenFive_def fiveThenThreeArgs_def minute_def compile_defs graph_defs)

text \<open>
  C6 (amended). If the dimensions hold a \<^verbatim>\<open>time()\<close> entry with a nonzero duration
  literal and, later, another \<^verbatim>\<open>time()\<close> entry with a duration-literal first argument
  and one or two arguments, and no entry before the second raises an error of its own,
  then \<^verbatim>\<open>Compile\<close> returns \<^verbatim>\<open>multiple time dimensions not allowed\<close>. A statement that
  compiles has at most one \<^verbatim>\<open>time()\<close> entry with a nonzero duration.
\<close>

theorem multiple_time_dimensions:
  "(stmtDimensions stmt = ds @ Dimension (Call ''time'' (DurationLiteral d2 # a2)) # rest
      \<and> length a2 \<le> 1
      \<and> Dimension (Call ''time'' (DurationLiteral d1 # a1)) \<in> set ds \<and> d1 \<noteq> 0
      \<and> \<not> isl (Compile_dimensions (Compile_start w stmt opt) ds)
     \<longrightarrow> Compile w stmt opt = Inl (Error ''multiple time dimensions not allowed''))
   \<and> (Compile w stmt opt = Inr c \<longrightarrow> length (filter nonzeroTime (stmtDimensions stmt)) \<le> 1)"
proof (intro conjI impI)
  assume a: "stmtDimensions stmt = ds @ Dimension (Call ''time'' (DurationLiteral d2 # a2)) # rest
      \<and> length a2 \<le> 1
      \<and> Dimension (Call ''time'' (DurationLiteral d1 # a1)) \<in> set ds \<and> d1 \<noteq> 0
      \<and> \<not> isl (Compile_dimensions (Compile_start w stmt opt) ds)"
  then obtain c1 where d: "Compile_dimensions (Compile_start w stmt opt) ds = Inr c1"
    by (cases "Compile_dimensions (Compile_start w stmt opt) ds") auto
  from a have m: "Dimension (Call ''time'' (DurationLiteral d1 # a1)) \<in> set ds"
    and nz: "d1 \<noteq> 0" by simp_all
  from Compile_dimensions_interval [OF d m nz] nz have set: "Duration (Interval c1) \<noteq> 0" by simp
  from a have len: "length a2 \<le> 1" by simp
  have step: "Compile_dimension c1 (Call ''time'' (DurationLiteral d2 # a2))
                = Inl (Error ''multiple time dimensions not allowed'')"
    using set len by simp
  have "Compile_dimensions (Compile_start w stmt opt) (stmtDimensions stmt)
          = Inl (Error ''multiple time dimensions not allowed'')"
    using a d step by (simp add: Compile_dimensions_append)
  then show "Compile w stmt opt = Inl (Error ''multiple time dimensions not allowed'')"
    by (simp add: Compile_unfold)
next
  assume "Compile w stmt opt = Inr c"
  from Compile_result [OF this] obtain c1 where
    "Compile_dimensions (Compile_start w stmt opt) (stmtDimensions stmt) = Inr c1" by blast
  from Compile_dimensions_at_most_one [OF this]
  show "length (filter nonzeroTime (stmtDimensions stmt)) \<le> 1" .
qed

theorem multiple_time_dimensions_witness:
  "Compile 0 oneThenFive \<lparr>Now = 1\<rparr> = Inl (Error ''multiple time dimensions not allowed'')"
proof -
  have d: "stmtDimensions oneThenFive
             = [Dimension (Call ''time'' (DurationLiteral minute # []))]
               @ Dimension (Call ''time'' (DurationLiteral (5 * minute) # [])) # []"
    by (simp add: oneThenFive_def select_def)
  have m: "Dimension (Call ''time'' (DurationLiteral minute # []))
             \<in> set [Dimension (Call ''time'' (DurationLiteral minute # []))]" by simp
  have nz: "minute \<noteq> 0" by (simp add: minute_def)
  have ok: "\<not> isl (Compile_dimensions (Compile_start 0 oneThenFive \<lparr>Now = 1\<rparr>)
                      [Dimension (Call ''time'' (DurationLiteral minute # []))])"
    by (simp add: Compile_start_def newCompiler_def)
  from multiple_time_dimensions
         [of oneThenFive "[Dimension (Call ''time'' (DurationLiteral minute # []))]"
             "5 * minute" "[]" "[]" minute "[]" 0 "\<lparr>Now = 1\<rparr>"]
       d m nz ok
  show ?thesis by simp
qed

subsection \<open>top() and bottom() exclude every other function call\<close>

lemma compileExpr_Call_registers:
  "compileExpr c (Call name args) = Inr (e, c') \<Longrightarrow>
     length (FunctionCalls c) < length (FunctionCalls c')"
  by (auto split: if_splits dest!: compileFunction_frame compileDistinct_frame compileTopBottom_frame)

lemma compileExpr_topbottom:
  "compileExpr c (Call name args) = Inr (e, c') \<Longrightarrow> name \<in> set [''top'', ''bottom''] \<Longrightarrow>
     TopBottomFunction c' = name"
  by (auto split: if_splits dest!: compileTopBottom_frame)

lemma isCallField_cases:
  "isCallField f \<Longrightarrow> \<exists>name args. f = Field (Call name args)"
  by (erule isCallField.elims(2)) blast

lemma Compile_fields_calls:
  "Compile_fields c fs = Inr c' \<Longrightarrow>
     length (FunctionCalls c) + length (filter isCallField fs) \<le> length (FunctionCalls c')"
proof (induction fs arbitrary: c)
  case Nil
  then show ?case by simp
next
  case (Cons f fs)
  show ?case
  proof (cases "asVarRef (fieldExpr f) = Some ''time''")
    case True
    then have nc: "\<not> isCallField f" by (auto dest!: isCallField_cases)
    from True Cons.prems have "Compile_fields c fs = Inr c'" by simp
    from Cons.IH [OF this] nc show ?thesis by simp
  next
    case False
    with Cons.prems obtain out c1 where x: "compileExpr c (fieldExpr f) = Inr (out, c1)"
      and r: "Compile_fields (c1\<lparr>OutputEdges := OutputEdges c1 @ [out]\<rparr>) fs = Inr c'"
      by (auto split: sum.splits)
    from Cons.IH [OF r]
    have ih: "length (FunctionCalls c1) + length (filter isCallField fs) \<le> length (FunctionCalls c')"
      by simp
    show ?thesis
    proof (cases "isCallField f")
      case True
      from isCallField_cases [OF this] obtain name args where f: "f = Field (Call name args)"
        by blast
      from x have "compileExpr c (Call name args) = Inr (out, c1)"
        unfolding f by (simp only: Field.sel)
      from compileExpr_Call_registers [OF this] ih True show ?thesis by simp
    next
      case nc: False
      from compileExpr_frame [OF x] obtain new where "FunctionCalls c1 = FunctionCalls c @ new"
        by blast
      with ih nc show ?thesis by simp
    qed
  qed
qed

lemma Compile_fields_topbottom:
  assumes "Compile_fields c fs = Inr c'"
    and "Field (Call name args) \<in> set fs" and "name \<in> set [''top'', ''bottom'']"
  shows "TopBottomFunction c' = name"
  using assms(1,2)
proof (induction fs arbitrary: c)
  case Nil
  then show ?case by simp
next
  case (Cons f fs)
  have nn: "name \<noteq> []" using assms(3) by auto
  show ?case
  proof (cases "asVarRef (fieldExpr f) = Some ''time''")
    case True
    then have "f \<noteq> Field (Call name args)" by auto
    with Cons.prems(2) have m: "Field (Call name args) \<in> set fs" by simp
    from True Cons.prems(1) have "Compile_fields c fs = Inr c'" by simp
    from Cons.IH [OF this m] show ?thesis .
  next
    case False
    with Cons.prems(1) obtain out c1 where x: "compileExpr c (fieldExpr f) = Inr (out, c1)"
      and r: "Compile_fields (c1\<lparr>OutputEdges := OutputEdges c1 @ [out]\<rparr>) fs = Inr c'"
      by (auto split: sum.splits)
    show ?thesis
    proof (cases "f = Field (Call name args)")
      case True
      from x have "compileExpr c (Call name args) = Inr (out, c1)"
        unfolding True by (simp only: Field.sel)
      from compileExpr_topbottom [OF this assms(3)] have t: "TopBottomFunction c1 = name" .
      from Compile_fields_frame [OF r] t nn show ?thesis by simp
    next
      case False
      with Cons.prems(2) have m: "Field (Call name args) \<in> set fs" by simp
      from Cons.IH [OF r m] show ?thesis .
    qed
  qed
qed

text \<open>
  C5. (1) Once a \<^verbatim>\<open>top\<close> or \<^verbatim>\<open>bottom\<close> name is recorded, compiling another \<^verbatim>\<open>top()\<close> or
  \<^verbatim>\<open>bottom()\<close> call fails at once with the selector error naming the recorded function.
  (2) When every field has compiled, a recorded name together with more than one
  registered call makes \<^verbatim>\<open>Compile\<close> fail in \<^verbatim>\<open>validateFields\<close> with the same error.
  (3) In terms of the statement: if the fields compile, one of them is a
  \<^verbatim>\<open>top()\<close> or \<^verbatim>\<open>bottom()\<close> call and at least two of them are function calls, then that
  call's name is the recorded one and \<^verbatim>\<open>Compile\<close> returns the selector error for it. The
  error is \<^verbatim>\<open>fmt.Errorf("selector function %s() cannot be combined with other functions", X)\<close>.
\<close>

theorem top_bottom_exclusive:
  "(TopBottomFunction c \<noteq> [] \<and> name \<in> set [''top'', ''bottom''] \<longrightarrow>
      compileExpr c (Call name args) = Inl (selectorMessage (TopBottomFunction c)))
   \<and> (Compile_dimensions (Compile_start w stmt opt) (stmtDimensions stmt) = Inr c1
       \<and> Compile_fields c1 (stmtFields stmt) = Inr c2
       \<and> TopBottomFunction c2 \<noteq> [] \<and> 1 < length (FunctionCalls c2) \<longrightarrow>
      Compile w stmt opt = Inl (selectorMessage (TopBottomFunction c2)))
   \<and> (Compile_dimensions (Compile_start w stmt opt) (stmtDimensions stmt) = Inr c1
       \<and> Compile_fields c1 (stmtFields stmt) = Inr c2
       \<and> Field (Call name args) \<in> set (stmtFields stmt) \<and> name \<in> set [''top'', ''bottom'']
       \<and> 2 \<le> length (filter isCallField (stmtFields stmt)) \<longrightarrow>
      TopBottomFunction c2 = name \<and> Compile w stmt opt = Inl (selectorMessage name))"
proof (intro conjI impI)
  assume "TopBottomFunction c \<noteq> [] \<and> name \<in> set [''top'', ''bottom'']"
  then show "compileExpr c (Call name args) = Inl (selectorMessage (TopBottomFunction c))"
    by (auto simp: compileTopBottom_def selectorMessage_def)
next
  assume a: "Compile_dimensions (Compile_start w stmt opt) (stmtDimensions stmt) = Inr c1
       \<and> Compile_fields c1 (stmtFields stmt) = Inr c2
       \<and> TopBottomFunction c2 \<noteq> [] \<and> 1 < length (FunctionCalls c2)"
  then show "Compile w stmt opt = Inl (selectorMessage (TopBottomFunction c2))"
    by (simp add: Compile_unfold validateFields_def selectorMessage_def)
next
  assume a: "Compile_dimensions (Compile_start w stmt opt) (stmtDimensions stmt) = Inr c1
       \<and> Compile_fields c1 (stmtFields stmt) = Inr c2
       \<and> Field (Call name args) \<in> set (stmtFields stmt) \<and> name \<in> set [''top'', ''bottom'']
       \<and> 2 \<le> length (filter isCallField (stmtFields stmt))"
  then have f: "Compile_fields c1 (stmtFields stmt) = Inr c2"
    and m: "Field (Call name args) \<in> set (stmtFields stmt)"
    and n: "name \<in> set [''top'', ''bottom'']" by simp_all
  from Compile_fields_topbottom [OF f m n] show t: "TopBottomFunction c2 = name" .
  from n have nn: "name \<noteq> []" by auto
  from Compile_fields_calls [OF f] a have "1 < length (FunctionCalls c2)" by simp
  with a t nn show "Compile w stmt opt = Inl (selectorMessage name)"
    by (simp add: Compile_unfold validateFields_def selectorMessage_def)
qed

theorem top_bottom_exclusive_witness:
  "Compile 0 topThenMean \<lparr>Now = 1\<rparr> = Inl (selectorMessage ''top'')
   \<and> Compile 0 maxThenBottom \<lparr>Now = 1\<rparr> = Inl (selectorMessage ''bottom'')
   \<and> compileExpr ((Compile_start 0 topThenMean \<lparr>Now = 1\<rparr>)\<lparr>TopBottomFunction := ''top''\<rparr>)
        (Call ''bottom'' [VarRef ''value'', IntegerLiteral 3]) = Inl (selectorMessage ''top'')"
proof -
  let ?o = "\<lparr>Now = 1\<rparr>"
  let ?s1 = "Compile_start 0 topThenMean ?o"
  let ?s2 = "Compile_start 0 maxThenBottom ?o"
  have d1: "Compile_dimensions ?s1 (stmtDimensions topThenMean) = Inr ?s1"
    by (simp add: topThenMean_def select_def)
  have d2: "Compile_dimensions ?s2 (stmtDimensions maxThenBottom) = Inr ?s2"
    by (simp add: maxThenBottom_def select_def)
  have "\<not> isl (Compile_fields ?s1 (stmtFields topThenMean))"
    by (simp add: topThenMean_def Compile_start_def compile_defs graph_defs)
  then have f1: "Compile_fields ?s1 (stmtFields topThenMean)
                   = Inr (projr (Compile_fields ?s1 (stmtFields topThenMean)))"
    by (cases "Compile_fields ?s1 (stmtFields topThenMean)") auto
  have "\<not> isl (Compile_fields ?s2 (stmtFields maxThenBottom))"
    by (simp add: maxThenBottom_def Compile_start_def compile_defs graph_defs)
  then have f2: "Compile_fields ?s2 (stmtFields maxThenBottom)
                   = Inr (projr (Compile_fields ?s2 (stmtFields maxThenBottom)))"
    by (cases "Compile_fields ?s2 (stmtFields maxThenBottom)") auto
  have m1: "Field (Call ''top'' [VarRef ''value'', IntegerLiteral 3]) \<in> set (stmtFields topThenMean)"
    and n1: "2 \<le> length (filter isCallField (stmtFields topThenMean))"
    by (simp_all add: topThenMean_def select_def)
  have m2: "Field (Call ''bottom'' [VarRef ''value'', VarRef ''host'', IntegerLiteral 3])
              \<in> set (stmtFields maxThenBottom)"
    and n2: "2 \<le> length (filter isCallField (stmtFields maxThenBottom))"
    by (simp_all add: maxThenBottom_def select_def)
  from top_bottom_exclusive
         [where name = "''top''" and args = "[VarRef ''value'', IntegerLiteral 3]" and w = 0
            and stmt = topThenMean and opt = ?o and ?c1.0 = ?s1
            and ?c2.0 = "projr (Compile_fields ?s1 (stmtFields topThenMean))"]
       d1 f1 m1 n1
  have r1: "Compile 0 topThenMean ?o = Inl (selectorMessage ''top'')" by simp
  from top_bottom_exclusive
         [where name = "''bottom''" and args = "[VarRef ''value'', VarRef ''host'', IntegerLiteral 3]"
            and w = 0 and stmt = maxThenBottom and opt = ?o and ?c1.0 = ?s2
            and ?c2.0 = "projr (Compile_fields ?s2 (stmtFields maxThenBottom))"]
       d2 f2 m2 n2
  have r2: "Compile 0 maxThenBottom ?o = Inl (selectorMessage ''bottom'')" by simp
  from top_bottom_exclusive
         [where c = "?s1\<lparr>TopBottomFunction := ''top''\<rparr>" and name = "''bottom''"
            and args = "[VarRef ''value'', IntegerLiteral 3]"]
  have r3: "compileExpr (?s1\<lparr>TopBottomFunction := ''top''\<rparr>)
              (Call ''bottom'' [VarRef ''value'', IntegerLiteral 3]) = Inl (selectorMessage ''top'')"
    by simp
  from r1 r2 r3 show ?thesis by blast
qed

subsection \<open>distinct() beside a bare field\<close>

lemma compileDistinct_ok:
  assumes "\<forall>s\<in>set (Sources c). isMeasurement s"
  shows "\<exists>e c'. compileDistinct c [VarRef x] = Inr (e, c')"
proof -
  obtain d g where n: "newNode (graph c) DistinctNode = (d, g)"
    by (cases "newNode (graph c) DistinctNode")
  from assms have "\<forall>s\<in>set (Sources (c\<lparr>graph := g\<rparr>)). isMeasurement s" by simp
  from compileVarRef_ok [OF this, of "Some x" "Some d"] obtain inp c1 where
    v: "compileVarRef (c\<lparr>graph := g\<rparr>) (Some x) (Some d) = Inr (inp, c1)" by blast
  show ?thesis unfolding compileDistinct_def using n v by (auto split: prod.splits)
qed

lemma distinctField_cases:
  "distinctField f \<Longrightarrow> \<exists>x. f = Field (Call ''distinct'' [VarRef x]) \<or> f = Field (Distinct x)"
  by (erule distinctField.elims(2)) auto

lemma referenceField_cases:
  "referenceField f \<Longrightarrow> \<exists>y. f = Field (VarRef y)"
  by (erule referenceField.elims(2)) blast

lemma compileExpr_distinctField:
  "distinctField f \<Longrightarrow> \<exists>x. compileExpr c (fieldExpr f) = compileDistinct c [VarRef x]"
  by (auto dest!: distinctField_cases simp: NewCall_def)

lemma compileExpr_VarRef_frame:
  "\<exists>e c'. compileExpr c (VarRef y) = Inr (e, c') \<and> Sources c' = Sources c
      \<and> FunctionCalls c' = FunctionCalls c \<and> OnlySelectors c' = OnlySelectors c
      \<and> TopBottomFunction c' = TopBottomFunction c"
  by (auto simp: compileExpr_aux_def newNode_def AuxiliaryFields_Iterator_def AddEdge_def
           split: prod.splits option.splits)

lemma Compile_fields_distinct_refs:
  assumes "\<forall>f\<in>set fs. distinctField f \<or> referenceField f"
    and "\<forall>s\<in>set (Sources c). isMeasurement s"
  shows "\<exists>c'. Compile_fields c fs = Inr c' \<and> OnlySelectors c' = OnlySelectors c
           \<and> TopBottomFunction c' = TopBottomFunction c
           \<and> length (FunctionCalls c') = length (FunctionCalls c) + length (filter distinctField fs)"
  using assms
proof (induction fs arbitrary: c)
  case Nil
  then show ?case by simp
next
  case (Cons f fs)
  from Cons.prems(1) have rest: "\<forall>f\<in>set fs. distinctField f \<or> referenceField f" by simp
  show ?case
  proof (cases "distinctField f")
    case True
    from compileExpr_distinctField [OF True, of c] obtain x
      where cx: "compileExpr c (fieldExpr f) = compileDistinct c [VarRef x]" by blast
    from compileDistinct_ok [OF Cons.prems(2), of x] obtain e c1
      where d: "compileDistinct c [VarRef x] = Inr (e, c1)" by blast
    from True have nt: "asVarRef (fieldExpr f) \<noteq> Some ''time''"
      by (auto dest!: distinctField_cases)
    let ?c1 = "c1\<lparr>OutputEdges := OutputEdges c1 @ [e]\<rparr>"
    from compileDistinct_frame [OF d] Cons.prems(2)
    have fr: "Sources ?c1 = Sources c" "OnlySelectors ?c1 = OnlySelectors c"
      "TopBottomFunction ?c1 = TopBottomFunction c"
      "length (FunctionCalls ?c1) = length (FunctionCalls c) + 1"
      by (simp_all add: settings_def)
    from fr(1) Cons.prems(2) have "\<forall>s\<in>set (Sources ?c1). isMeasurement s" by simp
    from Cons.IH [OF rest this] obtain c' where
      r: "Compile_fields ?c1 fs = Inr c'" and
      p: "OnlySelectors c' = OnlySelectors ?c1" "TopBottomFunction c' = TopBottomFunction ?c1"
         "length (FunctionCalls c') = length (FunctionCalls ?c1) + length (filter distinctField fs)"
      by blast
    have "Compile_fields c (f # fs) = Inr c'" using nt cx d r by simp
    with p fr True show ?thesis by simp
  next
    case False
    with Cons.prems(1) have "referenceField f" by simp
    from referenceField_cases [OF this] obtain y where f: "f = Field (VarRef y)" by blast
    show ?thesis
    proof (cases "y = ''time''")
      case True
      from Cons.IH [OF rest Cons.prems(2)] obtain c' where
        r: "Compile_fields c fs = Inr c'" and
        p: "OnlySelectors c' = OnlySelectors c" "TopBottomFunction c' = TopBottomFunction c"
           "length (FunctionCalls c') = length (FunctionCalls c) + length (filter distinctField fs)"
        by blast
      have "Compile_fields c (f # fs) = Inr c'" using True r unfolding f by simp
      with p False show ?thesis by simp
    next
      case nt: False
      from compileExpr_VarRef_frame [of c y] obtain e c1 where
        x: "compileExpr c (VarRef y) = Inr (e, c1)" and
        fr0: "Sources c1 = Sources c" "FunctionCalls c1 = FunctionCalls c"
          "OnlySelectors c1 = OnlySelectors c" "TopBottomFunction c1 = TopBottomFunction c"
        by blast
      let ?c1 = "c1\<lparr>OutputEdges := OutputEdges c1 @ [e]\<rparr>"
      from fr0(1) Cons.prems(2) have "\<forall>s\<in>set (Sources ?c1). isMeasurement s" by simp
      from Cons.IH [OF rest this] obtain c' where
        r: "Compile_fields ?c1 fs = Inr c'" and
        p: "OnlySelectors c' = OnlySelectors ?c1" "TopBottomFunction c' = TopBottomFunction ?c1"
           "length (FunctionCalls c') = length (FunctionCalls ?c1) + length (filter distinctField fs)"
        by blast
      have "Compile_fields c (f # fs) = Inr c'" using nt x r unfolding f by simp
      with p fr0 False show ?thesis by simp
    qed
  qed
qed

lemma linkAuxiliaryFields_succeeds:
  "OnlySelectors c \<Longrightarrow> length (FunctionCalls c) = 1 \<Longrightarrow> \<exists>c'. linkAuxiliaryFields c = Inr c'"
  by (auto simp: linkAuxiliaryFields_def split: option.splits prod.splits)

text \<open>
  C10. Compiling a top-level \<^verbatim>\<open>distinct(...)\<close> call registers its output edge and leaves
  \<^verbatim>\<open>OnlySelectors\<close> as it was. Consequently a statement over measurements whose
  dimensions are accepted and whose fields are one \<^verbatim>\<open>distinct(x)\<close> and bare references
  (in any order) compiles: the mixing check of \<^verbatim>\<open>linkAuxiliaryFields\<close> passes, with
  \<^verbatim>\<open>OnlySelectors\<close> still true and one registered call.
\<close>

theorem distinct_keeps_OnlySelectors:
  "(compileExpr c0 (Call ''distinct'' args) = Inr (e, c') \<longrightarrow>
      OnlySelectors c' = OnlySelectors c0 \<and> FunctionCalls c' = FunctionCalls c0 @ [e])
   \<and> ((\<forall>s\<in>set (stmtSources stmt). isMeasurement s)
       \<and> \<not> isl (Compile_dimensions (Compile_start w stmt opt) (stmtDimensions stmt))
       \<and> (\<forall>f\<in>set (stmtFields stmt). distinctField f \<or> referenceField f)
       \<and> length (filter distinctField (stmtFields stmt)) = 1
      \<longrightarrow> (\<exists>c. Compile w stmt opt = Inr c \<and> OnlySelectors c \<and> length (FunctionCalls c) = 1))"
proof (intro conjI impI)
  assume "compileExpr c0 (Call ''distinct'' args) = Inr (e, c')"
  then have "compileDistinct c0 args = Inr (e, c')" by simp
  from compileDistinct_frame [OF this]
  show "OnlySelectors c' = OnlySelectors c0" "FunctionCalls c' = FunctionCalls c0 @ [e]"
    by simp_all
next
  assume a: "(\<forall>s\<in>set (stmtSources stmt). isMeasurement s)
       \<and> \<not> isl (Compile_dimensions (Compile_start w stmt opt) (stmtDimensions stmt))
       \<and> (\<forall>f\<in>set (stmtFields stmt). distinctField f \<or> referenceField f)
       \<and> length (filter distinctField (stmtFields stmt)) = 1"
  then obtain c1 where
    d: "Compile_dimensions (Compile_start w stmt opt) (stmtDimensions stmt) = Inr c1"
    by (cases "Compile_dimensions (Compile_start w stmt opt) (stmtDimensions stmt)") auto
  from Compile_dimensions_frame [OF d] have
    s1: "Sources c1 = stmtSources stmt" "FunctionCalls c1 = []" "OnlySelectors c1"
      "TopBottomFunction c1 = []"
    by (simp_all add: Compile_start_def newCompiler_def)
  from a s1(1) have m: "\<forall>s\<in>set (Sources c1). isMeasurement s" by simp
  from a have fs: "\<forall>f\<in>set (stmtFields stmt). distinctField f \<or> referenceField f" by simp
  from Compile_fields_distinct_refs [OF fs m] a s1 obtain c2 where
    f: "Compile_fields c1 (stmtFields stmt) = Inr c2" and
    p: "OnlySelectors c2" "TopBottomFunction c2 = []" "length (FunctionCalls c2) = 1"
    by auto
  from linkAuxiliaryFields_succeeds [OF p(1) p(3)] obtain c where
    l: "linkAuxiliaryFields c2 = Inr c" by blast
  have "Compile w stmt opt = Inr c"
    using d f p l by (simp add: Compile_unfold validateFields_def)
  moreover from linkAuxiliaryFields_frame [OF l] p
  have "OnlySelectors c" "length (FunctionCalls c) = 1" by simp_all
  ultimately show "\<exists>c. Compile w stmt opt = Inr c \<and> OnlySelectors c \<and> length (FunctionCalls c) = 1"
    by blast
qed

theorem distinct_keeps_OnlySelectors_witness:
  "\<not> isl (Compile 0 distinctAndValue \<lparr>Now = 1\<rparr>)
   \<and> OnlySelectors (projr (Compile 0 distinctAndValue \<lparr>Now = 1\<rparr>))
   \<and> length (FunctionCalls (projr (Compile 0 distinctAndValue \<lparr>Now = 1\<rparr>))) = 1"
proof -
  have s: "\<forall>s\<in>set (stmtSources distinctAndValue). isMeasurement s"
    by (simp add: distinctAndValue_def select_def cpu_def)
  have d: "\<not> isl (Compile_dimensions (Compile_start 0 distinctAndValue \<lparr>Now = 1\<rparr>)
                     (stmtDimensions distinctAndValue))"
    by (simp add: distinctAndValue_def select_def ToLower_def toLowerChar_def)
  have f: "\<forall>f\<in>set (stmtFields distinctAndValue). distinctField f \<or> referenceField f"
    by (simp add: distinctAndValue_def select_def)
  have n: "length (filter distinctField (stmtFields distinctAndValue)) = 1"
    by (simp add: distinctAndValue_def select_def)
  from distinct_keeps_OnlySelectors [where stmt = distinctAndValue and w = 0 and opt = "\<lparr>Now = 1\<rparr>"]
       s d f n
  obtain c where "Compile 0 distinctAndValue \<lparr>Now = 1\<rparr> = Inr c" "OnlySelectors c"
    "length (FunctionCalls c) = 1" by blast
  then show ?thesis by simp
qed

subsection \<open>The second draft as \<^verbatim>\<open>Compile\<close> drives it\<close>

text \<open>
  \<^verbatim>\<open>Compile\<close> of the second draft creates each \<^verbatim>\<open>compiledField\<close> without its \<^verbatim>\<open>global\<close>
  pointer. Every path of \<^verbatim>\<open>compileExpr\<close> that would return \<^verbatim>\<open>nil\<close> dereferences it first,
  so with \<open>global = None\<close> a field ends in an error value or in a panic.
\<close>

lemma compileDistinct2_nil:
  "global s = None \<Longrightarrow> isl (compileDistinct2 s args out nested)"
  by (auto simp: compileDistinct2_def global_compileVarRef_def split: option.splits prod.splits)

lemma compileFunction2_nil:
  "global s = None \<Longrightarrow> isl (compileFunction2 s name args out)"
  by (simp add: compileFunction2_def)

lemma compileTopBottom2_nil:
  "global s = None \<Longrightarrow> isl (compileTopBottom2 s name args out)"
  by (simp add: compileTopBottom2_def)

lemma compileExpr2_nil:
  "global s = None \<Longrightarrow> isl (compileExpr2 s x out)"
proof (induction s x out rule: compileExpr2.induct)
  case (6 s op lhs rhs out)
  show ?case
  proof (cases "isLiteral lhs \<or> isLiteral rhs")
    case True
    then show ?thesis by auto
  next
    case False
    obtain node h where n: "newNode (heap s) (BinaryExprNode op) = (node, h)"
      by (cases "newNode (heap s) (BinaryExprNode op)")
    obtain l linp h1 where
      e: "AddEdge (setWriteNode (setOutput h node out) out node) None (Some node) = ((l, linp), h1)"
      by (cases "AddEdge (setWriteNode (setOutput h node out) out node) None (Some node)") auto
    from False n e "6.prems" have
      "isl (compileExpr2 (s\<lparr>heap := addInput h1 node linp\<rparr>) lhs l)"
      by (intro "6.IH"(1)) auto
    with False n e show ?thesis by (auto split: sum.splits)
  qed
qed (auto simp: global_requireAuxiliaryFields_def compileDistinct2_nil compileFunction2_nil
       compileTopBottom2_nil split: sum.splits)

lemma Compile2_fields_result:
  "Compile2_fields h c fs = Inr (h', c') \<Longrightarrow> h' = h \<and> c' = c"
proof (induction fs arbitrary: h c)
  case Nil
  then show ?case by simp
next
  case (Cons f fs)
  show ?case
  proof (cases "asVarRef (fieldExpr f) = Some ''time''")
    case True
    with Cons show ?thesis by simp
  next
    case False
    obtain inp out h1 where e: "NewEdge h None = ((inp, out), h1)"
      by (cases "NewEdge h None") auto
    have "isl (compileExpr2 \<lparr>heap = h1,
                 self = \<lparr>Field_f = f, Output_f = out, Wildcard_f = None\<rparr>,
                 global = None\<rparr> (fieldExpr f) inp)"
      by (rule compileExpr2_nil) simp
    with False e Cons.prems show ?thesis by (auto split: sum.splits)
  qed
qed

lemma Compile2_offset_frame:
  "Compile2_offset c x = Inr c' \<Longrightarrow>
     FunctionCalls2 c' = FunctionCalls2 c \<and> AuxiliaryFields2 c' = AuxiliaryFields2 c"
  by (cases x) (auto split: if_splits)

lemma Compile2_dimension_frame:
  "Compile2_dimension c x = Inr c' \<Longrightarrow>
     FunctionCalls2 c' = FunctionCalls2 c \<and> AuxiliaryFields2 c' = AuxiliaryFields2 c"
  by (cases x) (auto split: if_splits option.splits dest!: Compile2_offset_frame)

lemma Compile2_dimensions_frame:
  "Compile2_dimensions c ds = Inr c' \<Longrightarrow>
     FunctionCalls2 c' = FunctionCalls2 c \<and> AuxiliaryFields2 c' = AuxiliaryFields2 c"
proof (induction ds arbitrary: c)
  case Nil
  then show ?case by simp
next
  case (Cons d ds)
  then obtain c1 where s: "Compile2_dimension c (dimensionExpr d) = Inr c1"
    and r: "Compile2_dimensions c1 ds = Inr c'"
    by (auto split: sum.splits)
  from Compile2_dimension_frame [OF s] Cons.IH [OF r] show ?case by simp
qed

text \<open>
  Hence no field but the bare \<^verbatim>\<open>time\<close> gets through the loop, nothing is ever
  registered, and the second draft's \<^verbatim>\<open>Compile\<close> succeeds on no statement at all.
\<close>

theorem Compile2_never_succeeds:
  "isl (Compile2 wallclock stmt opt)"
proof (cases "Compile2_dimensions
                ((newCompiler2 wallclock stmt opt)\<lparr>Sources2 := stmtSources stmt\<rparr>)
                (stmtDimensions stmt)")
  case (Inl e)
  then show ?thesis by (simp add: Compile2_def Let_def newCompiler2_def)
next
  case (Inr c1)
  from Compile2_dimensions_frame [OF Inr]
  have a: "FunctionCalls2 c1 = []" "AuxiliaryFields2 c1 = None"
    by (simp_all add: newCompiler2_def)
  show ?thesis
  proof (cases "Compile2_fields emptyGraph c1 (stmtFields stmt)")
    case (Inl e)
    with Inr show ?thesis by (simp add: Compile2_def Let_def newCompiler2_def)
  next
    case r: (Inr p)
    obtain h c2 where p: "p = (h, c2)" by (cases p)
    from r p Compile2_fields_result [of emptyGraph c1 "stmtFields stmt" h c2]
    have "c2 = c1" by simp
    with Inr r p a show ?thesis
      by (simp add: Compile2_def Let_def newCompiler2_def validateFields2_def
            linkAuxiliaryFields2_def)
  qed
qed

end
